theory Spec2Isabelle
  imports Complex_Main
begin

section \<open>Data model of image\_size\_compressor.js\<close>

text \<open>
  JavaScript numbers are modelled as exact rationals: the model has no NaN, no
  infinities and no rounding of double-precision arithmetic.  Where the source would
  divide by zero (a non-finite result in JavaScript, with which the code carries on)
  the model ends the run with the outcome \<open>NonFinite\<close> instead of using the value HOL
  gives to \<open>x / 0\<close>; this needs a negative cap and a dimension of 0.

  Rounding matters in two places.  A product of lines 67--76 that falls on a half
  pixel in exact arithmetic may fall just below it in double precision, so that
  \<open>Math.round\<close> gives one pixel less; the section on double-precision rendering repeats
  \<open>drawImageToCanvas\<close> with every product and quotient rounded to binary64, and the
  theorem on the rendered size is stated there.  The midpoint of line 172 is exact
  here, while in double precision it ends up on \<open>low\<close> or \<open>high\<close> once they are adjacent
  numbers; the theorems on the order of the qualities tried use no more of the midpoint
  than \<open>low \<le> (low + high) / 2 \<le> high\<close>, which rounding to nearest preserves.

  An \<open>HTMLImageElement\<close> has non-negative integer dimensions.  A canvas is identified
  with the two numbers that \<open>drawImageToCanvas\<close> assigns to \<open>canvas.width\<close> and
  \<open>canvas.height\<close> and passes to \<open>ctx.drawImage\<close>.  A \<open>Blob\<close> has a byte size and
  a content that the model leaves abstract.
\<close>

record image =
  width :: nat
  height :: nat

record canvas =
  cwidth :: rat
  cheight :: rat

record 'c blob =
  blob_size :: nat
  content :: 'c

text \<open>
  The \<open>options\<close> object.  A field that is absent (\<open>undefined\<close>) or \<open>null\<close> is \<open>None\<close>.
\<close>

record options =
  targetSizeKB :: "rat option"
  mimeType :: "string option"
  maxWidth :: "rat option"
  maxHeight :: "rat option"
  maxIterations :: "rat option"
  minQuality :: "rat option"
  maxQuality :: "rat option"
  allowScaleDown :: "bool option"

text \<open>
  The local variables of \<open>compressImageToTarget\<close> once the defaults are filled in
  (lines 121--133).  A primed name is the local variable of the same name.  The
  variable \<open>targetSizeKB\<close> is read only after the test of line 122 has found the option
  present and not zero.
\<close>

record settings =
  targetSizeKB' :: rat
  mimeType' :: string
  maxWidth' :: "rat option"
  maxHeight' :: "rat option"
  maxIterations' :: rat
  minQualitySetting :: rat
  maxQualitySetting :: rat
  allowScaleDown' :: bool

text \<open>The mutable variables of one quality search (lines 145--149).\<close>

record 'c search_state =
  low :: rat
  high :: rat
  currentQuality :: rat
  iteration :: nat
  bestBlob :: "'c blob option"

text \<open>
  Outcomes other than a blob: the rejection of line 123, a rejected load (lines 41--48),
  the \<open>TypeError\<close> of line 154 when \<open>toBlob\<close> hands over \<open>null\<close>, and a division by zero.
\<close>

datatype error = TargetRequired | LoadFailed | NullBlob | NonFinite

text \<open>
  The calls made to the host, in order: \<open>loadImageFromFile\<close>, \<open>drawImageToCanvas\<close>
  with its \<open>downscaleRatio\<close>, and \<open>canvasToBlob\<close> with canvas, MIME type and quality.
\<close>

datatype event = LoadImage | DrawImage rat | ToBlob canvas string rat

type_synonym 'c outcome = "event list \<times> (error + 'c blob)"

type_synonym 'c encoder = "canvas \<Rightarrow> string \<Rightarrow> rat \<Rightarrow> 'c blob option"

section \<open>Operations\<close>

text \<open>\<open>Math.round\<close>: the nearest integer, a half rounding up.\<close>

definition js_round :: "rat \<Rightarrow> rat" where
  "js_round x = of_int \<lfloor>x + 1 / 2\<rfloor>"

text \<open>Truthiness of an optional number: present and not zero.\<close>

definition truthy :: "rat option \<Rightarrow> bool" where
  "truthy v = (case v of None \<Rightarrow> False | Some x \<Rightarrow> x \<noteq> 0)"

text \<open>The idiom \<open>v || d\<close> on an optional number, and \<open>v || null\<close>.\<close>

definition or_default :: "rat option \<Rightarrow> rat \<Rightarrow> rat" where
  "or_default v d = (case v of None \<Rightarrow> d | Some x \<Rightarrow> if x = 0 then d else x)"

definition or_null :: "rat option \<Rightarrow> rat option" where
  "or_null v = (case v of None \<Rightarrow> None | Some x \<Rightarrow> if x = 0 then None else Some x)"

definition or_default_str :: "string option \<Rightarrow> string \<Rightarrow> string" where
  "or_default_str v d = (case v of None \<Rightarrow> d | Some s \<Rightarrow> if s = [] then d else s)"

subsection \<open>drawImageToCanvas (lines 61--86)\<close>

text \<open>Lines 66--69: the downscale ratio.\<close>

definition apply_ratio :: "rat \<Rightarrow> rat \<times> rat \<Rightarrow> rat \<times> rat" where
  "apply_ratio downscaleRatio wh =
     (if downscaleRatio < 1
      then (js_round (fst wh * downscaleRatio), js_round (snd wh * downscaleRatio))
      else wh)"

text \<open>Lines 71--74: the width cap.\<close>

definition clamp_width :: "rat option \<Rightarrow> rat \<times> rat \<Rightarrow> (rat \<times> rat) option" where
  "clamp_width mw wh =
     (case mw of
        None \<Rightarrow> Some wh
      | Some m \<Rightarrow>
          if m \<noteq> 0 \<and> fst wh > m
          then (if fst wh = 0 then None
                else Some (m, js_round (snd wh * (m / fst wh))))
          else Some wh)"

text \<open>Lines 75--78: the height cap.\<close>

definition clamp_height :: "rat option \<Rightarrow> rat \<times> rat \<Rightarrow> (rat \<times> rat) option" where
  "clamp_height mh wh =
     (case mh of
        None \<Rightarrow> Some wh
      | Some m \<Rightarrow>
          if m \<noteq> 0 \<and> snd wh > m
          then (if snd wh = 0 then None
                else Some (js_round (fst wh * (m / snd wh)), m))
          else Some wh)"

definition drawImageToCanvas ::
  "image \<Rightarrow> rat option \<Rightarrow> rat option \<Rightarrow> rat \<Rightarrow> canvas option" where
  "drawImageToCanvas img mw mh downscaleRatio =
     (case clamp_width mw
             (apply_ratio downscaleRatio (of_nat (width img), of_nat (height img))) of
        None \<Rightarrow> None
      | Some wh \<Rightarrow>
          (case clamp_height mh wh of
             None \<Rightarrow> None
           | Some wh' \<Rightarrow> Some \<lparr>cwidth = fst wh', cheight = snd wh'\<rparr>))"

subsection \<open>binarySearch (lines 152--175)\<close>

definition sizeKB :: "'c blob \<Rightarrow> rat" where
  "sizeKB blob = of_nat (blob_size blob) / 1024"

text \<open>Lines 157--165: record the blob or lower the ceiling, then count the iteration.\<close>

definition bs_update :: "rat \<Rightarrow> 'c blob \<Rightarrow> 'c search_state \<Rightarrow> 'c search_state" where
  "bs_update target blob st =
     (if sizeKB blob \<le> target
      then st\<lparr>bestBlob := Some blob, low := currentQuality st,
              iteration := iteration st + 1\<rparr>
      else st\<lparr>high := currentQuality st, iteration := iteration st + 1\<rparr>)"

text \<open>Line 167: the stop test, on the state after the update.\<close>

definition bs_stop :: "rat \<Rightarrow> rat \<Rightarrow> 'c blob \<Rightarrow> 'c search_state \<Rightarrow> bool" where
  "bs_stop target maxIter blob st \<longleftrightarrow>
     of_nat (iteration st) \<ge> maxIter \<or> \<bar>sizeKB blob - target\<bar> \<le> 5"

text \<open>Line 168: \<open>bestBlob || blob\<close>.\<close>

definition bs_result :: "'c blob \<Rightarrow> 'c search_state \<Rightarrow> 'c blob" where
  "bs_result blob st = (case bestBlob st of Some b \<Rightarrow> b | None \<Rightarrow> blob)"

text \<open>Line 172: the next quality.\<close>

definition bs_next :: "'c search_state \<Rightarrow> 'c search_state" where
  "bs_next st = st\<lparr>currentQuality := (low st + high st) / 2\<rparr>"

definition log_event :: "event \<Rightarrow> 'c outcome \<Rightarrow> 'c outcome" where
  "log_event e r = (e # fst r, snd r)"

function binarySearch ::
  "'c encoder \<Rightarrow> settings \<Rightarrow> canvas \<Rightarrow> 'c search_state \<Rightarrow> 'c outcome" where
  "binarySearch toBlob cfg cv st =
     log_event (ToBlob cv (mimeType' cfg) (currentQuality st))
       (case toBlob cv (mimeType' cfg) (currentQuality st) of
          None \<Rightarrow> ([], Inl NullBlob)
        | Some blob \<Rightarrow>
            if bs_stop (targetSizeKB' cfg) (maxIterations' cfg) blob
                 (bs_update (targetSizeKB' cfg) blob st)
            then ([], Inr (bs_result blob (bs_update (targetSizeKB' cfg) blob st)))
            else binarySearch toBlob cfg cv
                   (bs_next (bs_update (targetSizeKB' cfg) blob st)))"
  by pat_completeness auto
termination
proof (relation "measure (\<lambda>(toBlob, cfg, cv, st).
                   nat \<lceil>maxIterations' cfg\<rceil> - iteration st)")
  show "wf (measure (\<lambda>(toBlob :: 'c encoder, cfg, cv :: canvas, st :: 'c search_state).
                   nat \<lceil>maxIterations' cfg\<rceil> - iteration st))"
    by simp
next
  fix toBlob :: "'c encoder" and cfg cv and st :: "'c search_state" and blob
  assume "\<not> bs_stop (targetSizeKB' cfg) (maxIterations' cfg) blob
              (bs_update (targetSizeKB' cfg) blob st)"
  then have "rat_of_nat (iteration st + 1) < maxIterations' cfg"
    by (simp add: bs_stop_def bs_update_def split: if_splits)
  then have "rat_of_int (int (iteration st) + 1) < maxIterations' cfg"
    by (simp add: add.commute)
  then have "int (iteration st) + 1 < \<lceil>maxIterations' cfg\<rceil>"
    by (simp only: less_ceiling_iff)
  then show "((toBlob, cfg, cv, bs_next (bs_update (targetSizeKB' cfg) blob st)),
              (toBlob, cfg, cv, st))
             \<in> measure (\<lambda>(toBlob, cfg, cv, st).
                   nat \<lceil>maxIterations' cfg\<rceil> - iteration st)"
    by (simp add: bs_next_def bs_update_def)
qed

declare binarySearch.simps [simp del]

text \<open>
  The values of the search variables at the two control points of every iteration:
  before the encode of line 153 and at the stop test of line 167.
\<close>

function bs_states ::
  "'c encoder \<Rightarrow> settings \<Rightarrow> canvas \<Rightarrow> 'c search_state \<Rightarrow> 'c search_state list" where
  "bs_states toBlob cfg cv st =
     st # (case toBlob cv (mimeType' cfg) (currentQuality st) of
             None \<Rightarrow> []
           | Some blob \<Rightarrow>
               bs_update (targetSizeKB' cfg) blob st #
               (if bs_stop (targetSizeKB' cfg) (maxIterations' cfg) blob
                     (bs_update (targetSizeKB' cfg) blob st)
                then []
                else bs_states toBlob cfg cv
                       (bs_next (bs_update (targetSizeKB' cfg) blob st))))"
  by pat_completeness auto
termination
proof (relation "measure (\<lambda>(toBlob, cfg, cv, st).
                   nat \<lceil>maxIterations' cfg\<rceil> - iteration st)")
  show "wf (measure (\<lambda>(toBlob :: 'c encoder, cfg, cv :: canvas, st :: 'c search_state).
                   nat \<lceil>maxIterations' cfg\<rceil> - iteration st))"
    by simp
next
  fix toBlob :: "'c encoder" and cfg cv and st :: "'c search_state" and blob
  assume "\<not> bs_stop (targetSizeKB' cfg) (maxIterations' cfg) blob
              (bs_update (targetSizeKB' cfg) blob st)"
  then have "rat_of_nat (iteration st + 1) < maxIterations' cfg"
    by (simp add: bs_stop_def bs_update_def split: if_splits)
  then have "rat_of_int (int (iteration st) + 1) < maxIterations' cfg"
    by (simp add: add.commute)
  then have "int (iteration st) + 1 < \<lceil>maxIterations' cfg\<rceil>"
    by (simp only: less_ceiling_iff)
  then show "((toBlob, cfg, cv, bs_next (bs_update (targetSizeKB' cfg) blob st)),
              (toBlob, cfg, cv, st))
             \<in> measure (\<lambda>(toBlob, cfg, cv, st).
                   nat \<lceil>maxIterations' cfg\<rceil> - iteration st)"
    by (simp add: bs_next_def bs_update_def)
qed

declare bs_states.simps [simp del]

text \<open>The qualities passed to \<open>canvasToBlob\<close>, read off the log of calls.\<close>

fun tried :: "event list \<Rightarrow> rat list" where
  "tried [] = []"
| "tried (ToBlob cv m q # es) = q # tried es"
| "tried (e # es) = tried es"

subsection \<open>attemptCompression (lines 140--189)\<close>

definition scaleStep :: rat where
  "scaleStep = 9 / 10"

definition initial_state :: "settings \<Rightarrow> 'c search_state" where
  "initial_state cfg =
     \<lparr>low = minQualitySetting cfg, high = maxQualitySetting cfg,
      currentQuality = maxQualitySetting cfg, iteration = 0, bestBlob = None\<rparr>"

definition append_events :: "event list \<Rightarrow> 'c outcome \<Rightarrow> 'c outcome" where
  "append_events es r = (es @ fst r, snd r)"

text \<open>Line 182: the retry test on the blob the search returned.\<close>

definition retry :: "settings \<Rightarrow> rat \<Rightarrow> 'c blob \<Rightarrow> bool" where
  "retry cfg downscaleRatio blobResult \<longleftrightarrow>
     sizeKB blobResult > targetSizeKB' cfg + 5 \<and> allowScaleDown' cfg
       \<and> downscaleRatio > 1 / 4"

function attemptCompression ::
  "'c encoder \<Rightarrow> settings \<Rightarrow> image \<Rightarrow> rat \<Rightarrow> 'c outcome" where
  "attemptCompression toBlob cfg img downscaleRatio =
     log_event (DrawImage downscaleRatio)
       (case drawImageToCanvas img (maxWidth' cfg) (maxHeight' cfg) downscaleRatio of
          None \<Rightarrow> ([], Inl NonFinite)
        | Some cv \<Rightarrow>
            (case snd (binarySearch toBlob cfg cv (initial_state cfg)) of
               Inl e \<Rightarrow> binarySearch toBlob cfg cv (initial_state cfg)
             | Inr blobResult \<Rightarrow>
                 if retry cfg downscaleRatio blobResult
                 then append_events
                        (fst (binarySearch toBlob cfg cv (initial_state cfg)))
                        (attemptCompression toBlob cfg img (downscaleRatio * scaleStep))
                 else binarySearch toBlob cfg cv (initial_state cfg)))"
  by pat_completeness auto
termination
proof (relation "measure (\<lambda>(toBlob, cfg, img, r). nat \<lceil>(r - 1 / 4) * 40\<rceil>)")
  show "wf (measure (\<lambda>(toBlob :: 'c encoder, cfg :: settings, img :: image, r :: rat).
               nat \<lceil>(r - 1 / 4) * 40\<rceil>))"
    by simp
next
  fix toBlob :: "'c encoder" and cfg img and r :: rat and cv and blobResult :: "'c blob"
  assume "retry cfg r blobResult"
  then have r: "r > 1 / 4"
    by (simp add: retry_def)
  have "(r * scaleStep - 1 / 4) * 40 \<le> (r - 1 / 4) * 40 - 1"
    using r by (simp add: scaleStep_def algebra_simps)
  then have "\<lceil>(r * scaleStep - 1 / 4) * 40\<rceil> \<le> \<lceil>(r - 1 / 4) * 40 - 1\<rceil>"
    by (rule ceiling_mono)
  moreover have "\<lceil>(r - 1 / 4) * 40\<rceil> > 0"
    using r by (simp add: algebra_simps)
  ultimately show "((toBlob, cfg, img, r * scaleStep), (toBlob, cfg, img, r))
        \<in> measure (\<lambda>(toBlob, cfg, img, r). nat \<lceil>(r - 1 / 4) * 40\<rceil>)"
    by simp
qed

declare attemptCompression.simps [simp del]

subsection \<open>compressImageToTarget (lines 118--194)\<close>

definition resolve :: "options \<Rightarrow> settings" where
  "resolve opts =
     \<lparr>targetSizeKB' = the (targetSizeKB opts),
      mimeType' = or_default_str (mimeType opts) ''image/jpeg'',
      maxWidth' = or_null (maxWidth opts),
      maxHeight' = or_null (maxHeight opts),
      maxIterations' = or_default (maxIterations opts) 10,
      minQualitySetting = or_default (minQuality opts) (1 / 10),
      maxQualitySetting = or_default (maxQuality opts) (95 / 100),
      allowScaleDown' = (allowScaleDown opts \<noteq> Some False)\<rparr>"

definition compressImageToTarget ::
  "('f \<Rightarrow> image option) \<Rightarrow> 'c encoder \<Rightarrow> 'f \<Rightarrow> options \<Rightarrow> 'c outcome" where
  "compressImageToTarget loadImageFromFile toBlob file opts =
     (if \<not> truthy (targetSizeKB opts) then ([], Inl TargetRequired)
      else log_event LoadImage
             (case loadImageFromFile file of
                None \<Rightarrow> ([], Inl LoadFailed)
              | Some img \<Rightarrow> attemptCompression toBlob (resolve opts) img 1))"

text \<open>The downscale ratios passed to \<open>drawImageToCanvas\<close>, read off the log of calls.\<close>

fun draw_ratios :: "event list \<Rightarrow> rat list" where
  "draw_ratios [] = []"
| "draw_ratios (DrawImage r # es) = r # draw_ratios es"
| "draw_ratios (e # es) = draw_ratios es"

section \<open>Rendering in double precision\<close>

text \<open>
  Rounding to the nearest binary64 number, ties to the even significand, of a rational
  number.  The exponent range is not bounded: numbers below \<open>2 ^ - 1022\<close> or from
  \<open>2 ^ 1024\<close> on in magnitude are outside this model.  \<open>bit_length n\<close> is the number of
  binary digits of a positive integer, \<open>exponent2 x\<close> the integer part of the binary
  logarithm of a positive number.
\<close>

function bit_length :: "int \<Rightarrow> int" where
  "bit_length n = (if n \<le> 0 then 0 else 1 + bit_length (n div 2))"
  by pat_completeness auto
termination
  by (relation "measure nat") auto

declare bit_length.simps [simp del]

definition pow2 :: "int \<Rightarrow> rat" where
  "pow2 e = (if 0 \<le> e then 2 ^ nat e else 1 / 2 ^ nat (- e))"

definition exponent2 :: "rat \<Rightarrow> int" where
  "exponent2 x =
     (if 1 \<le> x then bit_length \<lfloor>x\<rfloor> - 1 else - bit_length (\<lceil>1 / x\<rceil> - 1))"

definition round_half_even :: "rat \<Rightarrow> int" where
  "round_half_even y =
     (if y - of_int \<lfloor>y\<rfloor> < 1 / 2 then \<lfloor>y\<rfloor>
      else if 1 / 2 < y - of_int \<lfloor>y\<rfloor> then \<lfloor>y\<rfloor> + 1
      else if even \<lfloor>y\<rfloor> then \<lfloor>y\<rfloor> else \<lfloor>y\<rfloor> + 1)"

definition fl64 :: "rat \<Rightarrow> rat" where
  "fl64 x =
     (if x = 0 then 0
      else of_int (round_half_even (x / pow2 (exponent2 \<bar>x\<bar> - 52)))
             * pow2 (exponent2 \<bar>x\<bar> - 52))"

text \<open>Lines 66--69 in double precision.\<close>

definition apply_ratio64 :: "rat \<Rightarrow> rat \<times> rat \<Rightarrow> rat \<times> rat" where
  "apply_ratio64 downscaleRatio wh =
     (if downscaleRatio < 1
      then (js_round (fl64 (fst wh * downscaleRatio)),
            js_round (fl64 (snd wh * downscaleRatio)))
      else wh)"

text \<open>
  Lines 71--74 in double precision.  \<open>None\<close> stands for a canvas one of whose dimensions
  JavaScript computes as an infinity or NaN, after a division by a width of 0 under a
  negative cap.
\<close>

definition clamp_width64 :: "rat option \<Rightarrow> rat \<times> rat \<Rightarrow> (rat \<times> rat) option" where
  "clamp_width64 mw wh =
     (case mw of
        None \<Rightarrow> Some wh
      | Some m \<Rightarrow>
          if m \<noteq> 0 \<and> fst wh > m
          then (if fst wh = 0 then None
                else Some (m, js_round (fl64 (snd wh * fl64 (m / fst wh)))))
          else Some wh)"

text \<open>Lines 75--78 in double precision, with \<open>None\<close> as before for a height of 0.\<close>

definition clamp_height64 :: "rat option \<Rightarrow> rat \<times> rat \<Rightarrow> (rat \<times> rat) option" where
  "clamp_height64 mh wh =
     (case mh of
        None \<Rightarrow> Some wh
      | Some m \<Rightarrow>
          if m \<noteq> 0 \<and> snd wh > m
          then (if snd wh = 0 then None
                else Some (js_round (fl64 (fst wh * fl64 (m / snd wh))), m))
          else Some wh)"

definition drawImageToCanvas64 ::
  "image \<Rightarrow> rat option \<Rightarrow> rat option \<Rightarrow> rat \<Rightarrow> canvas option" where
  "drawImageToCanvas64 img mw mh downscaleRatio =
     (case clamp_width64 mw
             (apply_ratio64 downscaleRatio (of_nat (width img), of_nat (height img))) of
        None \<Rightarrow> None
      | Some wh \<Rightarrow>
          (case clamp_height64 mh wh of
             None \<Rightarrow> None
           | Some wh' \<Rightarrow> Some \<lparr>cwidth = fst wh', cheight = snd wh'\<rparr>))"

section \<open>The specification's wording\<close>

text \<open>
  The quality search as the specification words it, in bytes: a target of
  \<open>targetSizeBytes\<close>, a tolerance of 5 KiB, and \<open>n\<close> the number of encodes made so
  far.  The relation holds between a search state and the qualities encoded from it,
  in order, together with the blob (or failure) that the search ends with.
\<close>

definition spec_stop :: "rat \<Rightarrow> rat \<Rightarrow> nat \<Rightarrow> 'c blob \<Rightarrow> bool" where
  "spec_stop targetSizeBytes maxIter n blob \<longleftrightarrow>
     maxIter \<le> of_nat n \<or> \<bar>of_nat (blob_size blob) - targetSizeBytes\<bar> \<le> 5 * 1024"

inductive search_spec ::
  "(rat \<Rightarrow> 'c blob option) \<Rightarrow> rat \<Rightarrow> rat \<Rightarrow> 'c search_state
     \<Rightarrow> rat list \<times> (error + 'c blob) \<Rightarrow> bool"
  for enc :: "rat \<Rightarrow> 'c blob option" and targetSizeBytes maxIter :: rat
where
  no_blob:
    "enc (currentQuality st) = None
     \<Longrightarrow> search_spec enc targetSizeBytes maxIter st ([currentQuality st], Inl NullBlob)"
| stop_conforming:
    "enc (currentQuality st) = Some blob
     \<Longrightarrow> of_nat (blob_size blob) \<le> targetSizeBytes
     \<Longrightarrow> spec_stop targetSizeBytes maxIter (Suc (iteration st)) blob
     \<Longrightarrow> search_spec enc targetSizeBytes maxIter st ([currentQuality st], Inr blob)"
| stop_over:
    "enc (currentQuality st) = Some blob
     \<Longrightarrow> targetSizeBytes < of_nat (blob_size blob)
     \<Longrightarrow> spec_stop targetSizeBytes maxIter (Suc (iteration st)) blob
     \<Longrightarrow> search_spec enc targetSizeBytes maxIter st
           ([currentQuality st],
            Inr (case bestBlob st of None \<Rightarrow> blob | Some best \<Rightarrow> best))"
| continue_conforming:
    "enc (currentQuality st) = Some blob
     \<Longrightarrow> of_nat (blob_size blob) \<le> targetSizeBytes
     \<Longrightarrow> \<not> spec_stop targetSizeBytes maxIter (Suc (iteration st)) blob
     \<Longrightarrow> search_spec enc targetSizeBytes maxIter
           \<lparr>low = currentQuality st, high = high st,
            currentQuality = (currentQuality st + high st) / 2,
            iteration = Suc (iteration st), bestBlob = Some blob\<rparr> (qs, r)
     \<Longrightarrow> search_spec enc targetSizeBytes maxIter st (currentQuality st # qs, r)"
| continue_over:
    "enc (currentQuality st) = Some blob
     \<Longrightarrow> targetSizeBytes < of_nat (blob_size blob)
     \<Longrightarrow> \<not> spec_stop targetSizeBytes maxIter (Suc (iteration st)) blob
     \<Longrightarrow> search_spec enc targetSizeBytes maxIter
           \<lparr>low = low st, high = currentQuality st,
            currentQuality = (low st + currentQuality st) / 2,
            iteration = Suc (iteration st), bestBlob = bestBlob st\<rparr> (qs, r)
     \<Longrightarrow> search_spec enc targetSizeBytes maxIter st (currentQuality st # qs, r)"

code_pred search_spec .

text \<open>The invariant of the specification's data model on the search variables.\<close>

definition quality_inv :: "'c search_state \<Rightarrow> bool" where
  "quality_inv st \<longleftrightarrow>
     0 \<le> low st \<and> low st \<le> currentQuality st \<and> currentQuality st \<le> high st
       \<and> high st \<le> 1"

text \<open>A number that is an integer.\<close>

definition whole :: "rat \<Rightarrow> bool" where
  "whole x \<longleftrightarrow> x = of_int \<lfloor>x\<rfloor>"

section \<open>Test fixtures\<close>

text \<open>
  The synthetic encoder of the specification's scenario: a blob of \<open>1000 * q\<close> KB at
  quality \<open>q\<close>, whatever the canvas and the MIME type.  The content of the blob records
  the quality it was encoded at.
\<close>

definition synthetic :: "rat encoder" where
  "synthetic cv mime q = Some \<lparr>blob_size = nat \<lfloor>1024000 * q\<rfloor>, content = q\<rparr>"

text \<open>
  An encoder whose blob grows with the canvas: \<open>width * height * q\<close> bytes at quality
  \<open>q\<close>.
\<close>

definition area_encoder :: "rat encoder" where
  "area_encoder cv mime q =
     Some \<lparr>blob_size = nat \<lfloor>cwidth cv * cheight cv * q\<rfloor>, content = q\<rparr>"

definition sample_image :: image where
  "sample_image = \<lparr>width = 1000, height = 500\<rparr>"

definition sample_canvas :: canvas where
  "sample_canvas = \<lparr>cwidth = 1000, cheight = 500\<rparr>"

text \<open>An options object that sets \<open>targetSizeKB\<close> only.\<close>

definition target_only :: "rat \<Rightarrow> options" where
  "target_only t =
     \<lparr>targetSizeKB = Some t, mimeType = None, maxWidth = None, maxHeight = None,
      maxIterations = None, minQuality = None, maxQuality = None,
      allowScaleDown = None\<rparr>"

section \<open>Rounding and option defaults\<close>

lemma js_round_of_int: "js_round (of_int n) = of_int n"
proof -
  have "\<lfloor>rat_of_int n + 1 / 2\<rfloor> = n"
    by linarith
  then show ?thesis
    by (simp add: js_round_def)
qed

lemma js_round_mono: "x \<le> y \<Longrightarrow> js_round x \<le> js_round y"
  unfolding js_round_def by (simp add: floor_mono)

lemma js_round_nonneg: "0 \<le> x \<Longrightarrow> 0 \<le> js_round x"
  unfolding js_round_def by simp

lemma whole_js_round: "whole (js_round x)"
  by (simp add: whole_def js_round_def)

lemma whole_of_nat: "whole (of_nat n)"
  by (simp add: whole_def)

lemma js_round_le_whole: "whole y \<Longrightarrow> x \<le> y \<Longrightarrow> js_round x \<le> y"
  using js_round_mono [of x y] js_round_of_int [of "\<lfloor>y\<rfloor>"] by (simp add: whole_def)

lemma resolve_falsy:
  "resolve (opts\<lparr>minQuality := Some 0\<rparr>) = resolve (opts\<lparr>minQuality := None\<rparr>)"
  "resolve (opts\<lparr>minQuality := Some (1 / 10)\<rparr>) = resolve (opts\<lparr>minQuality := None\<rparr>)"
  "resolve (opts\<lparr>maxQuality := Some 0\<rparr>) = resolve (opts\<lparr>maxQuality := None\<rparr>)"
  "resolve (opts\<lparr>maxQuality := Some (95 / 100)\<rparr>) = resolve (opts\<lparr>maxQuality := None\<rparr>)"
  "resolve (opts\<lparr>maxIterations := Some 0\<rparr>) = resolve (opts\<lparr>maxIterations := None\<rparr>)"
  "resolve (opts\<lparr>maxIterations := None\<rparr>) = resolve (opts\<lparr>maxIterations := Some 10\<rparr>)"
  "resolve (opts\<lparr>maxWidth := Some 0\<rparr>) = resolve (opts\<lparr>maxWidth := None\<rparr>)"
  "resolve (opts\<lparr>maxHeight := Some 0\<rparr>) = resolve (opts\<lparr>maxHeight := None\<rparr>)"
  "resolve (opts\<lparr>mimeType := Some []\<rparr>) = resolve (opts\<lparr>mimeType := None\<rparr>)"
  "resolve (opts\<lparr>mimeType := Some ''image/jpeg''\<rparr>) = resolve (opts\<lparr>mimeType := None\<rparr>)"
  by (simp_all add: resolve_def or_default_def or_null_def or_default_str_def)

lemma floor_rat_numeral_div:
  "\<lfloor>(numeral a :: rat) / numeral b\<rfloor> = numeral a div numeral b"
  using floor_divide_of_int_eq [of "numeral a" "numeral b", where ?'a = rat] by simp

text \<open>The equations that evaluate the model on a concrete input.\<close>

lemmas model_defs =
  compressImageToTarget_def resolve_def truthy_def or_default_def or_null_def
  or_default_str_def target_only_def sample_image_def sample_canvas_def synthetic_def
  area_encoder_def
  drawImageToCanvas_def clamp_width_def clamp_height_def apply_ratio_def js_round_def
  initial_state_def bs_stop_def bs_update_def bs_result_def bs_next_def sizeKB_def
  log_event_def append_events_def retry_def scaleStep_def floor_rat_numeral_div
  binarySearch.simps bs_states.simps attemptCompression.simps

section \<open>Request validation\<close>

text \<open>
  C1 (as amended).  A call whose \<open>targetSizeKB\<close> is missing or equal to 0 is rejected
  with the error of line 123, and no load, draw or encode call is made before the
  rejection.  (A negative \<open>targetSizeKB\<close> is truthy and passes the test of line 122.)
\<close>

theorem missing_or_zero_target_rejected:
  assumes "targetSizeKB opts = None \<or> targetSizeKB opts = Some 0"
  shows "compressImageToTarget loadImageFromFile toBlob file opts
           = ([], Inl TargetRequired)"
  using assms by (auto simp: compressImageToTarget_def truthy_def)

theorem missing_or_zero_target_rejected_witness:
  "(targetSizeKB (target_only 0) = None \<or> targetSizeKB (target_only 0) = Some 0)
   \<and> compressImageToTarget Some synthetic sample_image (target_only 0)
       = ([], Inl TargetRequired)"
  using missing_or_zero_target_rejected [of "target_only 0" Some synthetic sample_image]
  by (simp add: target_only_def)

text \<open>
  C1 as stated fails for a negative target: with \<open>targetSizeKB = -1\<close> (and one
  iteration, no downscaling) the image is loaded, drawn and encoded, and the call
  returns a blob.
\<close>

theorem negative_target_not_rejected:
  "compressImageToTarget Some synthetic sample_image
     ((target_only (- 1))\<lparr>maxIterations := Some 1, allowScaleDown := Some False\<rparr>)
   = ([LoadImage, DrawImage 1, ToBlob sample_canvas ''image/jpeg'' (19 / 20)],
      Inr \<lparr>blob_size = 972800, content = 19 / 20\<rparr>)"
  by (simp add: model_defs)

text \<open>
  C9 (as amended).  For every request, a falsy value of \<open>targetSizeKB\<close>, \<open>mimeType\<close>,
  \<open>maxWidth\<close>, \<open>maxHeight\<close>, \<open>maxIterations\<close>, \<open>minQuality\<close> or \<open>maxQuality\<close>, the options
  that lines 122--131 test for truthiness, is the same as leaving the option out:
  \<open>minQuality = 0\<close> gives the result of an absent \<open>minQuality\<close>, which is the result of
  \<open>minQuality = 0.1\<close>; \<open>maxIterations = 0\<close> behaves as 10; \<open>maxWidth = 0\<close> and
  \<open>maxHeight = 0\<close> behave as no cap; \<open>maxQuality = 0\<close> behaves as 0.95, an empty
  \<open>mimeType\<close> as \<open>image/jpeg\<close>, and \<open>targetSizeKB = 0\<close> is rejected as a missing one is.
\<close>

theorem falsy_option_is_omitted:
  "compressImageToTarget ld enc f (opts\<lparr>minQuality := Some 0\<rparr>)
     = compressImageToTarget ld enc f (opts\<lparr>minQuality := None\<rparr>)
   \<and> compressImageToTarget ld enc f (opts\<lparr>minQuality := Some 0\<rparr>)
     = compressImageToTarget ld enc f (opts\<lparr>minQuality := Some (1 / 10)\<rparr>)
   \<and> minQualitySetting (resolve (opts\<lparr>minQuality := Some 0\<rparr>)) = 1 / 10
   \<and> low (initial_state (resolve (opts\<lparr>minQuality := Some 0\<rparr>)) :: 'c search_state)
       = 1 / 10
   \<and> compressImageToTarget ld enc f (opts\<lparr>maxIterations := Some 0\<rparr>)
     = compressImageToTarget ld enc f (opts\<lparr>maxIterations := Some 10\<rparr>)
   \<and> compressImageToTarget ld enc f (opts\<lparr>maxIterations := Some 0\<rparr>)
     = compressImageToTarget ld enc f (opts\<lparr>maxIterations := None\<rparr>)
   \<and> maxIterations' (resolve (opts\<lparr>maxIterations := Some 0\<rparr>)) = 10
   \<and> compressImageToTarget ld enc f (opts\<lparr>maxWidth := Some 0\<rparr>)
     = compressImageToTarget ld enc f (opts\<lparr>maxWidth := None\<rparr>)
   \<and> maxWidth' (resolve (opts\<lparr>maxWidth := Some 0\<rparr>)) = None
   \<and> compressImageToTarget ld enc f (opts\<lparr>maxHeight := Some 0\<rparr>)
     = compressImageToTarget ld enc f (opts\<lparr>maxHeight := None\<rparr>)
   \<and> maxHeight' (resolve (opts\<lparr>maxHeight := Some 0\<rparr>)) = None
   \<and> compressImageToTarget ld enc f (opts\<lparr>maxQuality := Some 0\<rparr>)
     = compressImageToTarget ld enc f (opts\<lparr>maxQuality := None\<rparr>)
   \<and> compressImageToTarget ld enc f (opts\<lparr>maxQuality := Some 0\<rparr>)
     = compressImageToTarget ld enc f (opts\<lparr>maxQuality := Some (95 / 100)\<rparr>)
   \<and> compressImageToTarget ld enc f (opts\<lparr>mimeType := Some []\<rparr>)
     = compressImageToTarget ld enc f (opts\<lparr>mimeType := None\<rparr>)
   \<and> compressImageToTarget ld enc f (opts\<lparr>mimeType := Some []\<rparr>)
     = compressImageToTarget ld enc f (opts\<lparr>mimeType := Some ''image/jpeg''\<rparr>)
   \<and> compressImageToTarget ld enc f (opts\<lparr>targetSizeKB := Some 0\<rparr>)
     = compressImageToTarget ld enc f (opts\<lparr>targetSizeKB := None\<rparr>)
   \<and> compressImageToTarget ld enc f (opts\<lparr>targetSizeKB := Some 0\<rparr>)
     = ([], Inl TargetRequired)"
  unfolding compressImageToTarget_def resolve_falsy
  by (simp add: resolve_def or_default_def or_null_def truthy_def initial_state_def)

text \<open>
  C9 as stated fails for the option \<open>allowScaleDown\<close>, which line 132 compares with
  \<open>false\<close> instead of defaulting it: with a target of 300 KB, one iteration and an
  encoder whose blobs shrink with the canvas, \<open>allowScaleDown = false\<close> renders once,
  and leaving the option out renders three times, at the ratios 1, 0.9 and 0.81.
\<close>

theorem allow_scale_down_false_is_not_omitted:
  "draw_ratios (fst (compressImageToTarget Some area_encoder sample_image
       ((target_only 300)\<lparr>maxIterations := Some 1, allowScaleDown := Some False\<rparr>)))
     = [1]
   \<and> draw_ratios (fst (compressImageToTarget Some area_encoder sample_image
       ((target_only 300)\<lparr>maxIterations := Some 1, allowScaleDown := None\<rparr>)))
     = [1, 9 / 10, 81 / 100]"
  by (simp add: model_defs)

section \<open>Rendering\<close>

lemma apply_ratio_whole:
  assumes "0 \<le> r" and "apply_ratio r (of_nat w, of_nat h) = (a, b)"
  shows "whole a \<and> whole b \<and> 0 \<le> a \<and> 0 \<le> b"
  using assms
  by (auto simp: apply_ratio_def whole_js_round whole_of_nat js_round_nonneg split: if_splits)

lemma clamp_width_whole:
  assumes "whole a" "whole b" "0 \<le> a" "0 \<le> b" "0 < M"
    and "clamp_width (Some (of_nat M)) (a, b) = Some (c, d)"
  shows "whole c \<and> whole d \<and> 0 \<le> c \<and> 0 \<le> d \<and> c \<le> of_nat M"
  using assms
  by (auto simp: clamp_width_def whole_js_round whole_of_nat js_round_nonneg split: if_splits)

lemma clamp_height_width:
  assumes "whole c" "0 \<le> c" "0 \<le> d"
    and "clamp_height mh (c, d) = Some (w3, h3)"
  shows "w3 \<le> c"
proof (cases "\<exists>H. mh = Some H \<and> H \<noteq> 0 \<and> H < d")
  case False
  with assms(4) show ?thesis
    by (auto simp: clamp_height_def split: option.splits if_splits)
next
  case True
  then obtain H where H: "mh = Some H" "H \<noteq> 0" "H < d"
    by blast
  with assms have d: "0 < d" and w3: "w3 = js_round (c * (H / d))"
    by (auto simp: clamp_height_def split: if_splits)
  have "H / d \<le> 1"
    using H d by simp
  then have "c * (H / d) \<le> c"
    using mult_left_mono [of "H / d" 1 c] assms(2) by simp
  then show ?thesis
    unfolding w3 using assms(1) by (rule js_round_le_whole [rotated])
qed

lemma clamp_height_cap:
  assumes "0 < H" and "clamp_height (Some H) (c, d) = Some (w3, h3)"
  shows "h3 \<le> H"
  using assms by (auto simp: clamp_height_def split: if_splits)

text \<open>
  C10 (as amended).  For every render with a downscale ratio in \<open>(0, 1]\<close>, the canvas
  height never exceeds a positive \<open>maxHeight\<close>, and the canvas width never exceeds a
  \<open>maxWidth\<close> that is a positive integer, rounding included.
\<close>

theorem integer_caps_respected:
  assumes "0 < r" and "r \<le> 1"
    and "drawImageToCanvas img mw mh r = Some cv"
  shows "(mw = Some (of_nat M) \<and> 0 < M \<longrightarrow> cwidth cv \<le> of_nat M)
       \<and> (mh = Some H \<and> 0 < H \<longrightarrow> cheight cv \<le> H)"
proof -
  obtain a b where ab: "apply_ratio r (of_nat (width img), of_nat (height img)) = (a, b)"
    by (cases "apply_ratio r (rat_of_nat (width img), rat_of_nat (height img))")
  obtain c d where cd: "clamp_width mw (a, b) = Some (c, d)"
    using assms(3) ab by (auto simp: drawImageToCanvas_def split: option.splits)
  obtain w3 h3 where wh: "clamp_height mh (c, d) = Some (w3, h3)"
    and cv: "cv = \<lparr>cwidth = w3, cheight = h3\<rparr>"
    using assms(3) ab cd by (auto simp: drawImageToCanvas_def split: option.splits)
  have ab': "whole a \<and> whole b \<and> 0 \<le> a \<and> 0 \<le> b"
    using apply_ratio_whole [OF _ ab] assms(1) by simp
  have "cwidth cv \<le> of_nat M" if "mw = Some (of_nat M)" "0 < M"
  proof -
    have "whole c \<and> whole d \<and> 0 \<le> c \<and> 0 \<le> d \<and> c \<le> of_nat M"
      using clamp_width_whole [of a b M c d] ab' cd that by simp
    then show ?thesis
      using clamp_height_width [OF _ _ _ wh] cv by fastforce
  qed
  moreover have "cheight cv \<le> H" if "mh = Some H" "0 < H"
    using clamp_height_cap [of H c d w3 h3] wh that cv by simp
  ultimately show ?thesis
    by blast
qed

theorem integer_caps_respected_witness:
  "drawImageToCanvas sample_image (Some 301) (Some 100) (9 / 10)
     = Some \<lparr>cwidth = 199, cheight = 100\<rparr>
   \<and> cwidth \<lparr>cwidth = 199, cheight = 100\<rparr> \<le> 301
   \<and> cheight \<lparr>cwidth = 199, cheight = 100\<rparr> \<le> 100"
proof -
  have d: "drawImageToCanvas sample_image (Some 301) (Some 100) (9 / 10)
             = Some \<lparr>cwidth = 199, cheight = 100\<rparr>"
    by (simp add: model_defs)
  show ?thesis
    using integer_caps_respected [OF _ _ d, of 301 100] d by simp
qed

text \<open>
  C10 as stated fails for a cap that is a positive number but not an integer: a
  20 x 20000 image with \<open>maxWidth = 10.6\<close> and \<open>maxHeight = 10599\<close> is first clamped to
  10.6 x 10600 and then, by the height cap, to a width of \<open>round (10.599) = 11\<close>, above
  \<open>maxWidth\<close>.
\<close>

theorem fractional_width_cap_exceeded:
  "drawImageToCanvas \<lparr>width = 20, height = 20000\<rparr> (Some (53 / 5)) (Some 10599) 1
     = Some \<lparr>cwidth = 11, cheight = 10599\<rparr>
   \<and> (53 / 5 :: rat) < 11"
  by (simp add: model_defs)

text \<open>
  The rounding agrees with the binary64 values of 0.1, 0.95 and 1/3, leaves 1/4
  unchanged, and resolves the ties at \<open>2 ^ 53 + 1\<close> and \<open>2 ^ 53 + 3\<close> to the even
  significand.
\<close>

lemma fl64_samples:
  "fl64 (1 / 10) = 3602879701896397 / 36028797018963968"
  "fl64 (95 / 100) = 4278419646001971 / 4503599627370496"
  "fl64 (- (1 / 3)) = - (6004799503160661 / 18014398509481984)"
  "fl64 (1 / 4) = 1 / 4"
  "fl64 9007199254740993 = 9007199254740992"
  "fl64 9007199254740995 = 9007199254740996"
  by code_simp+

lemmas render64_defs =
  drawImageToCanvas64_def apply_ratio64_def clamp_width64_def clamp_height64_def

text \<open>
  C8 (as amended).  In double precision, as the code computes: the downscale ratio is
  applied to the source dimensions first, giving \<open>w1\<close> and \<open>h1\<close>; then the width cap,
  then the height cap.  For a source wider (after the ratio, so at ratio 1 as it is)
  than a given positive \<open>maxWidth\<close>, the width cap gives the width \<open>maxWidth\<close> and the
  height \<open>h2 = Math.round (h1 * (maxWidth / w1))\<close>; these are the rendered dimensions
  when no \<open>maxHeight\<close> is given or \<open>h2\<close> does not exceed it, and otherwise the rendered
  height is \<open>maxHeight\<close> and the rendered width is
  \<open>Math.round (maxWidth * (maxHeight / h2))\<close>.  When the width cap does not apply, a
  positive \<open>maxHeight\<close> below \<open>h1\<close> gives the height \<open>maxHeight\<close> and the width
  \<open>Math.round (w1 * (maxHeight / h1))\<close>, and with no cap applying the canvas is
  \<open>w1\<close> by \<open>h1\<close>.
\<close>

theorem render_pipeline64:
  assumes "apply_ratio64 r (of_nat (width img), of_nat (height img)) = (w1, h1)"
    and "h2 = js_round (fl64 (h1 * fl64 (m / w1)))"
  shows "(r < 1 \<longrightarrow> w1 = js_round (fl64 (of_nat (width img) * r))
                    \<and> h1 = js_round (fl64 (of_nat (height img) * r)))
       \<and> (1 \<le> r \<longrightarrow> w1 = of_nat (width img) \<and> h1 = of_nat (height img))
       \<and> (mw = Some m \<and> 0 < m \<and> m < w1 \<and> (\<forall>c. mh = Some c \<longrightarrow> c = 0 \<or> h2 \<le> c)
            \<longrightarrow> drawImageToCanvas64 img mw mh r = Some \<lparr>cwidth = m, cheight = h2\<rparr>)
       \<and> (mw = Some m \<and> 0 < m \<and> m < w1 \<and> mh = Some c \<and> 0 < c \<and> c < h2
            \<longrightarrow> drawImageToCanvas64 img mw mh r
                  = Some \<lparr>cwidth = js_round (fl64 (m * fl64 (c / h2))), cheight = c\<rparr>)
       \<and> ((\<forall>m'. mw = Some m' \<longrightarrow> m' = 0 \<or> w1 \<le> m') \<and> mh = Some c \<and> 0 < c \<and> c < h1
            \<longrightarrow> drawImageToCanvas64 img mw mh r
                  = Some \<lparr>cwidth = js_round (fl64 (w1 * fl64 (c / h1))), cheight = c\<rparr>)
       \<and> ((\<forall>m'. mw = Some m' \<longrightarrow> m' = 0 \<or> w1 \<le> m')
              \<and> (\<forall>c'. mh = Some c' \<longrightarrow> c' = 0 \<or> h1 \<le> c')
            \<longrightarrow> drawImageToCanvas64 img mw mh r = Some \<lparr>cwidth = w1, cheight = h1\<rparr>)"
proof (intro conjI impI)
  show "w1 = js_round (fl64 (of_nat (width img) * r))" if "r < 1"
    using assms(1) that by (simp add: apply_ratio64_def)
  show "h1 = js_round (fl64 (of_nat (height img) * r))" if "r < 1"
    using assms(1) that by (simp add: apply_ratio64_def)
  show "w1 = of_nat (width img)" if "1 \<le> r"
    using assms(1) that by (simp add: apply_ratio64_def)
  show "h1 = of_nat (height img)" if "1 \<le> r"
    using assms(1) that by (simp add: apply_ratio64_def)
next
  assume a: "mw = Some m \<and> 0 < m \<and> m < w1 \<and> (\<forall>c. mh = Some c \<longrightarrow> c = 0 \<or> h2 \<le> c)"
  then have "clamp_width64 mw (w1, h1) = Some (m, h2)"
    using assms(2) by (simp add: clamp_width64_def)
  moreover have "clamp_height64 mh (m, h2) = Some (m, h2)"
    using a by (cases mh) (auto simp: clamp_height64_def)
  ultimately show "drawImageToCanvas64 img mw mh r = Some \<lparr>cwidth = m, cheight = h2\<rparr>"
    using assms(1) by (simp add: drawImageToCanvas64_def)
next
  assume a: "mw = Some m \<and> 0 < m \<and> m < w1 \<and> mh = Some c \<and> 0 < c \<and> c < h2"
  then have "clamp_width64 mw (w1, h1) = Some (m, h2)"
    using assms(2) by (simp add: clamp_width64_def)
  moreover have "clamp_height64 mh (m, h2)
                   = Some (js_round (fl64 (m * fl64 (c / h2))), c)"
    using a by (simp add: clamp_height64_def)
  ultimately show "drawImageToCanvas64 img mw mh r
                  = Some \<lparr>cwidth = js_round (fl64 (m * fl64 (c / h2))), cheight = c\<rparr>"
    using assms(1) by (simp add: drawImageToCanvas64_def)
next
  assume a: "(\<forall>m'. mw = Some m' \<longrightarrow> m' = 0 \<or> w1 \<le> m') \<and> mh = Some c \<and> 0 < c \<and> c < h1"
  then have "clamp_width64 mw (w1, h1) = Some (w1, h1)"
    by (cases mw) (auto simp: clamp_width64_def)
  moreover have "clamp_height64 mh (w1, h1)
                   = Some (js_round (fl64 (w1 * fl64 (c / h1))), c)"
    using a by (simp add: clamp_height64_def)
  ultimately show "drawImageToCanvas64 img mw mh r
                  = Some \<lparr>cwidth = js_round (fl64 (w1 * fl64 (c / h1))), cheight = c\<rparr>"
    using assms(1) by (simp add: drawImageToCanvas64_def)
next
  assume a: "(\<forall>m'. mw = Some m' \<longrightarrow> m' = 0 \<or> w1 \<le> m')
              \<and> (\<forall>c'. mh = Some c' \<longrightarrow> c' = 0 \<or> h1 \<le> c')"
  then have "clamp_width64 mw (w1, h1) = Some (w1, h1)"
    by (cases mw) (auto simp: clamp_width64_def)
  moreover have "clamp_height64 mh (w1, h1) = Some (w1, h1)"
    using a by (cases mh) (auto simp: clamp_height64_def)
  ultimately show "drawImageToCanvas64 img mw mh r = Some \<lparr>cwidth = w1, cheight = h1\<rparr>"
    using assms(1) by (simp add: drawImageToCanvas64_def)
qed

theorem render_pipeline64_witness:
  "drawImageToCanvas64 \<lparr>width = 800, height = 600\<rparr> (Some 326) None 1
     = Some \<lparr>cwidth = 326, cheight = 244\<rparr>
   \<and> drawImageToCanvas64 \<lparr>width = 45, height = 10\<rparr> None (Some 7) 1
     = Some \<lparr>cwidth = 31, cheight = 7\<rparr>"
proof -
  have a: "apply_ratio64 1 (of_nat (width \<lparr>width = 800, height = 600\<rparr>),
             of_nat (height \<lparr>width = 800, height = 600\<rparr>)) = (800, 600)"
    by (simp add: apply_ratio64_def)
  have h: "(244 :: rat) = js_round (fl64 (600 * fl64 (326 / 800)))"
    by code_simp
  have b: "apply_ratio64 1 (of_nat (width \<lparr>width = 45, height = 10\<rparr>),
             of_nat (height \<lparr>width = 45, height = 10\<rparr>)) = (45, 10)"
    by (simp add: apply_ratio64_def)
  have w: "js_round (fl64 (45 * fl64 (7 / 10))) = (31 :: rat)"
    by code_simp
  from render_pipeline64 [OF a h, of "Some 326" None 0]
    render_pipeline64 [OF b refl, of None 0 "Some 7" 7] w
  show ?thesis
    by simp
qed

text \<open>
  C8 as stated fails when a height cap applies as well: a 4000 x 3000 source with
  \<open>maxWidth = 1920\<close> and \<open>maxHeight = 1080\<close> at ratio 1 is first clamped to 1920 x 1440
  and then to 1440 x 1080, so the rendered width is not \<open>maxWidth\<close>.
\<close>

theorem width_cap_overridden_by_height_cap:
  "drawImageToCanvas64 \<lparr>width = 4000, height = 3000\<rparr> (Some 1920) (Some 1080) 1
     = Some \<lparr>cwidth = 1440, cheight = 1080\<rparr>
   \<and> (1440 :: rat) \<noteq> 1920"
  by (simp add: render64_defs) code_simp

section \<open>The quality search\<close>

lemma conforming_bytes:
  "sizeKB blob \<le> t \<longleftrightarrow> rat_of_nat (blob_size blob) \<le> 1024 * t"
  by (simp add: sizeKB_def divide_le_eq mult.commute)

lemma stop_bytes:
  "bs_stop t mi blob (bs_update t blob st) \<longleftrightarrow> spec_stop (1024 * t) mi (Suc (iteration st)) blob"
proof -
  have "\<bar>rat_of_nat (blob_size blob) / 1024 - t\<bar> \<le> 5
        \<longleftrightarrow> \<bar>rat_of_nat (blob_size blob) - 1024 * t\<bar> \<le> 5 * 1024"
    by (simp add: abs_le_iff field_simps)
  then show ?thesis
    by (simp add: bs_stop_def bs_update_def spec_stop_def sizeKB_def)
qed

lemma next_conforming:
  "sizeKB blob \<le> t \<Longrightarrow>
   bs_next (bs_update t blob st)
     = \<lparr>low = currentQuality st, high = high st,
        currentQuality = (currentQuality st + high st) / 2,
        iteration = Suc (iteration st), bestBlob = Some blob\<rparr>"
  by (simp add: bs_next_def bs_update_def)

lemma next_over:
  "\<not> sizeKB blob \<le> t \<Longrightarrow>
   bs_next (bs_update t blob st)
     = \<lparr>low = low st, high = currentQuality st,
        currentQuality = (low st + currentQuality st) / 2,
        iteration = Suc (iteration st), bestBlob = bestBlob st\<rparr>"
  by (simp add: bs_next_def bs_update_def)

lemma result_conforming:
  "sizeKB blob \<le> t \<Longrightarrow> bs_result blob (bs_update t blob st) = blob"
  by (simp add: bs_result_def bs_update_def)

lemma result_over:
  "\<not> sizeKB blob \<le> t \<Longrightarrow>
   bs_result blob (bs_update t blob st) = (case bestBlob st of None \<Rightarrow> blob | Some best \<Rightarrow> best)"
  by (simp add: bs_result_def bs_update_def split: option.splits)

lemma tried_log_event [simp]:
  "tried (fst (log_event (ToBlob cv m q) r)) = q # tried (fst r)"
  "snd (log_event e r) = snd r"
  by (simp_all add: log_event_def)

lemma search_no_blob:
  "toBlob cv (mimeType' cfg) (currentQuality st) = None \<Longrightarrow>
   binarySearch toBlob cfg cv st
     = ([ToBlob cv (mimeType' cfg) (currentQuality st)], Inl NullBlob)"
  by (subst binarySearch.simps) (simp add: log_event_def)

lemma search_stops:
  "toBlob cv (mimeType' cfg) (currentQuality st) = Some blob \<Longrightarrow>
   bs_stop (targetSizeKB' cfg) (maxIterations' cfg) blob
     (bs_update (targetSizeKB' cfg) blob st) \<Longrightarrow>
   binarySearch toBlob cfg cv st
     = ([ToBlob cv (mimeType' cfg) (currentQuality st)],
        Inr (bs_result blob (bs_update (targetSizeKB' cfg) blob st)))"
  by (subst binarySearch.simps) (simp add: log_event_def)

lemma search_continues:
  "toBlob cv (mimeType' cfg) (currentQuality st) = Some blob \<Longrightarrow>
   \<not> bs_stop (targetSizeKB' cfg) (maxIterations' cfg) blob
     (bs_update (targetSizeKB' cfg) blob st) \<Longrightarrow>
   binarySearch toBlob cfg cv st
     = log_event (ToBlob cv (mimeType' cfg) (currentQuality st))
         (binarySearch toBlob cfg cv (bs_next (bs_update (targetSizeKB' cfg) blob st)))"
  by (subst binarySearch.simps) simp

lemma binarySearch_meets_spec:
  "search_spec (toBlob cv (mimeType' cfg)) (1024 * targetSizeKB' cfg) (maxIterations' cfg) st
     (tried (fst (binarySearch toBlob cfg cv st)), snd (binarySearch toBlob cfg cv st))"
proof (induction toBlob cfg cv st rule: binarySearch.induct)
  case (1 toBlob cfg cv st)
  let ?t = "targetSizeKB' cfg"
  show ?case
  proof (cases "toBlob cv (mimeType' cfg) (currentQuality st)")
    case None
    then show ?thesis
      by (simp add: search_no_blob search_spec.no_blob)
  next
    case (Some blob)
    show ?thesis
    proof (cases "bs_stop ?t (maxIterations' cfg) blob (bs_update ?t blob st)")
      case True
      then have stop: "spec_stop (1024 * ?t) (maxIterations' cfg) (Suc (iteration st)) blob"
        by (simp add: stop_bytes)
      have run: "binarySearch toBlob cfg cv st
         = ([ToBlob cv (mimeType' cfg) (currentQuality st)],
            Inr (bs_result blob (bs_update ?t blob st)))"
        using Some True by (rule search_stops)
      show ?thesis
      proof (cases "sizeKB blob \<le> ?t")
        case True
        then have "rat_of_nat (blob_size blob) \<le> 1024 * ?t"
          by (simp add: conforming_bytes)
        from search_spec.stop_conforming [of "toBlob cv (mimeType' cfg)" st blob, OF Some this stop] show ?thesis
          by (simp add: run result_conforming [OF True])
      next
        case False
        then have "1024 * ?t < rat_of_nat (blob_size blob)"
          by (simp add: conforming_bytes)
        from search_spec.stop_over [of "toBlob cv (mimeType' cfg)" st blob, OF Some this stop] show ?thesis
          by (simp add: run result_over [OF False])
      qed
    next
      case False
      then have go: "\<not> spec_stop (1024 * ?t) (maxIterations' cfg) (Suc (iteration st)) blob"
        by (simp add: stop_bytes)
      note IH = "1.IH" [OF Some False]
      have run: "binarySearch toBlob cfg cv st
         = log_event (ToBlob cv (mimeType' cfg) (currentQuality st))
             (binarySearch toBlob cfg cv (bs_next (bs_update ?t blob st)))"
        using Some False by (rule search_continues)
      show ?thesis
      proof (cases "sizeKB blob \<le> ?t")
        case True
        then have "rat_of_nat (blob_size blob) \<le> 1024 * ?t"
          by (simp add: conforming_bytes)
        from search_spec.continue_conforming [of "toBlob cv (mimeType' cfg)" st blob, OF Some this go]
          IH [unfolded next_conforming [OF True]]
        show ?thesis
          by (simp add: run next_conforming [OF True])
      next
        case over: False
        then have "1024 * ?t < rat_of_nat (blob_size blob)"
          by (simp add: conforming_bytes)
        from search_spec.continue_over [of "toBlob cv (mimeType' cfg)" st blob, OF Some this go]
          IH [unfolded next_over [OF over]]
        show ?thesis
          by (simp add: run next_over [OF over])
      qed
    qed
  qed
qed

lemma spec_meets_binarySearch:
  assumes "search_spec (toBlob cv (mimeType' cfg)) (1024 * targetSizeKB' cfg)
             (maxIterations' cfg) st qr"
  shows "binarySearch toBlob cfg cv st = (map (ToBlob cv (mimeType' cfg)) (fst qr), snd qr)"
  using assms
proof (induction rule: search_spec.induct)
  case (no_blob st)
  then show ?case
    by (simp add: search_no_blob)
next
  case (stop_conforming st blob)
  then have c: "sizeKB blob \<le> targetSizeKB' cfg"
    by (simp add: conforming_bytes)
  have "bs_stop (targetSizeKB' cfg) (maxIterations' cfg) blob
          (bs_update (targetSizeKB' cfg) blob st)"
    using stop_conforming by (simp add: stop_bytes)
  from search_stops [of toBlob cv cfg st blob, OF stop_conforming(1) this] show ?case
    by (simp add: result_conforming [OF c])
next
  case (stop_over st blob)
  then have c: "\<not> sizeKB blob \<le> targetSizeKB' cfg"
    by (simp add: conforming_bytes)
  have "bs_stop (targetSizeKB' cfg) (maxIterations' cfg) blob
          (bs_update (targetSizeKB' cfg) blob st)"
    using stop_over by (simp add: stop_bytes)
  from search_stops [of toBlob cv cfg st blob, OF stop_over(1) this] show ?case
    by (simp add: result_over [OF c])
next
  case (continue_conforming st blob qs r)
  then have c: "sizeKB blob \<le> targetSizeKB' cfg"
    by (simp add: conforming_bytes)
  have "\<not> bs_stop (targetSizeKB' cfg) (maxIterations' cfg) blob
          (bs_update (targetSizeKB' cfg) blob st)"
    using continue_conforming by (simp add: stop_bytes)
  from search_continues [of toBlob cv cfg st blob, OF continue_conforming(1) this] continue_conforming.IH
  show ?case
    by (simp add: next_conforming [OF c] log_event_def)
next
  case (continue_over st blob qs r)
  then have c: "\<not> sizeKB blob \<le> targetSizeKB' cfg"
    by (simp add: conforming_bytes)
  have "\<not> bs_stop (targetSizeKB' cfg) (maxIterations' cfg) blob
          (bs_update (targetSizeKB' cfg) blob st)"
    using continue_over by (simp add: stop_bytes)
  from search_continues [of toBlob cv cfg st blob, OF continue_over(1) this] continue_over.IH
  show ?case
    by (simp add: next_over [OF c] log_event_def)
qed



lemma quality_inv_update:
  "quality_inv st \<Longrightarrow> quality_inv (bs_update t blob st)"
  by (simp add: quality_inv_def bs_update_def)

lemma quality_inv_next:
  "quality_inv st \<Longrightarrow> quality_inv (bs_next st)"
  by (simp add: quality_inv_def bs_next_def)

lemma quality_inv_states:
  "quality_inv st \<Longrightarrow> \<forall>s \<in> set (bs_states toBlob cfg cv st). quality_inv s"
proof (induction toBlob cfg cv st rule: bs_states.induct)
  case (1 toBlob cfg cv st)
  show ?case
  proof (cases "toBlob cv (mimeType' cfg) (currentQuality st)")
    case None
    then show ?thesis
      using "1.prems" by (subst bs_states.simps) simp
  next
    case (Some blob)
    let ?st' = "bs_update (targetSizeKB' cfg) blob st"
    have upd: "quality_inv ?st'"
      using "1.prems" by (rule quality_inv_update)
    show ?thesis
    proof (cases "bs_stop (targetSizeKB' cfg) (maxIterations' cfg) blob ?st'")
      case True
      then show ?thesis
        using Some "1.prems" upd by (subst bs_states.simps) simp
    next
      case False
      have "\<forall>s \<in> set (bs_states toBlob cfg cv (bs_next ?st')). quality_inv s"
        using "1.IH" [OF Some False] upd by (simp add: quality_inv_next)
      then show ?thesis
        using Some False "1.prems" upd by (subst bs_states.simps) simp
    qed
  qed
qed

text \<open>Every quality encoded is the \<open>currentQuality\<close> of a state of the search.\<close>

lemma tried_in_states:
  "set (tried (fst (binarySearch toBlob cfg cv st)))
     \<subseteq> currentQuality ` set (bs_states toBlob cfg cv st)"
proof (induction toBlob cfg cv st rule: binarySearch.induct)
  case (1 toBlob cfg cv st)
  show ?case
  proof (cases "toBlob cv (mimeType' cfg) (currentQuality st)")
    case None
    then show ?thesis
      by (subst bs_states.simps) (simp add: search_no_blob)
  next
    case (Some blob)
    show ?thesis
    proof (cases "bs_stop (targetSizeKB' cfg) (maxIterations' cfg) blob
                    (bs_update (targetSizeKB' cfg) blob st)")
      case True
      then show ?thesis
        using Some by (subst bs_states.simps) (simp add: search_stops)
    next
      case False
      then show ?thesis
        using Some "1.IH" [OF Some False]
        by (subst bs_states.simps) (auto simp: search_continues)
    qed
  qed
qed

lemma bs_states_hd: "hd (bs_states toBlob cfg cv st) = st"
  by (subst bs_states.simps) simp

text \<open>
  C4 (as amended).  For a request whose quality bounds as lines 130--131 resolve them
  (\<open>minQuality\<close>, or 0.1 when it is missing or 0; \<open>maxQuality\<close>, or 0.95 when it is
  missing or 0) satisfy \<open>0 \<le> min < max \<le> 1\<close>, the search variables satisfy
  \<open>0 \<le> low \<le> currentQuality \<le> high \<le> 1\<close> at every control point of every iteration,
  whatever the encoder returns; the first state has \<open>low\<close> at the resolved minimum and
  \<open>high = currentQuality\<close> at the resolved maximum.
\<close>

theorem quality_bounds_invariant:
  fixes toBlob :: "'c encoder"
  assumes "0 \<le> minQualitySetting (resolve opts)"
    and "minQualitySetting (resolve opts) < maxQualitySetting (resolve opts)"
    and "maxQualitySetting (resolve opts) \<le> 1"
  shows "(\<forall>s \<in> set (bs_states toBlob (resolve opts) cv (initial_state (resolve opts))).
            0 \<le> low s \<and> low s \<le> currentQuality s \<and> currentQuality s \<le> high s
              \<and> high s \<le> 1)
         \<and> low (hd (bs_states toBlob (resolve opts) cv (initial_state (resolve opts))))
             = or_default (minQuality opts) (1 / 10)
         \<and> high (hd (bs_states toBlob (resolve opts) cv (initial_state (resolve opts))))
             = or_default (maxQuality opts) (95 / 100)
         \<and> currentQuality
               (hd (bs_states toBlob (resolve opts) cv (initial_state (resolve opts))))
             = or_default (maxQuality opts) (95 / 100)
         \<and> minQualitySetting (resolve opts) = or_default (minQuality opts) (1 / 10)
         \<and> maxQualitySetting (resolve opts) = or_default (maxQuality opts) (95 / 100)"
proof -
  have "quality_inv (initial_state (resolve opts) :: 'c search_state)"
    using assms by (simp add: quality_inv_def initial_state_def)
  then have "\<forall>s \<in> set (bs_states toBlob (resolve opts) cv (initial_state (resolve opts))).
               quality_inv s"
    by (rule quality_inv_states)
  then show ?thesis
    by (simp add: quality_inv_def bs_states_hd initial_state_def resolve_def)
qed

theorem quality_bounds_invariant_witness:
  "0 \<le> minQualitySetting
          (resolve ((target_only 300)\<lparr>minQuality := Some (1 / 5), maxQuality := Some (4 / 5)\<rparr>))
   \<and> minQualitySetting
          (resolve ((target_only 300)\<lparr>minQuality := Some (1 / 5), maxQuality := Some (4 / 5)\<rparr>))
       < maxQualitySetting
          (resolve ((target_only 300)\<lparr>minQuality := Some (1 / 5), maxQuality := Some (4 / 5)\<rparr>))
   \<and> maxQualitySetting
          (resolve ((target_only 300)\<lparr>minQuality := Some (1 / 5), maxQuality := Some (4 / 5)\<rparr>))
       \<le> 1
   \<and> list_all quality_inv
        (bs_states synthetic
           (resolve ((target_only 300)\<lparr>minQuality := Some (1 / 5), maxQuality := Some (4 / 5)\<rparr>))
           sample_canvas
           (initial_state
              (resolve ((target_only 300)\<lparr>minQuality := Some (1 / 5),
                          maxQuality := Some (4 / 5)\<rparr>))))"
  using quality_bounds_invariant
    [of "(target_only 300)\<lparr>minQuality := Some (1 / 5), maxQuality := Some (4 / 5)\<rparr>"
      synthetic sample_canvas]
  by (simp add: list_all_iff quality_inv_def resolve_def target_only_def or_default_def)

text \<open>
  C4 as stated fails for \<open>minQuality = 0\<close>, which the claim's premise admits: line 130
  replaces it by 0.1, so the request \<open>minQuality = 0\<close>, \<open>maxQuality = 0.05\<close> starts its
  search with \<open>low = 0.1\<close>, which is neither \<open>minQuality\<close> nor at most
  \<open>currentQuality = high = 0.05\<close>.
\<close>

theorem zero_min_quality_starts_above_high:
  "minQuality ((target_only 300)\<lparr>minQuality := Some 0, maxQuality := Some (1 / 20)\<rparr>)
     = Some 0
   \<and> maxQuality ((target_only 300)\<lparr>minQuality := Some 0, maxQuality := Some (1 / 20)\<rparr>)
     = Some (1 / 20)
   \<and> hd (bs_states synthetic
           (resolve ((target_only 300)\<lparr>minQuality := Some 0, maxQuality := Some (1 / 20)\<rparr>))
           sample_canvas
           (initial_state
              (resolve ((target_only 300)\<lparr>minQuality := Some 0,
                          maxQuality := Some (1 / 20)\<rparr>))))
     = \<lparr>low = 1 / 10, high = 1 / 20, currentQuality = 1 / 20, iteration = 0,
        bestBlob = None\<rparr>
   \<and> \<not> (1 / 10 :: rat) \<le> 1 / 20"
  by (simp add: bs_states_hd initial_state_def resolve_def target_only_def or_default_def)

text \<open>
  C7.  With the synthetic encoder of \<open>1000 * q\<close> KB at quality \<open>q\<close>, a target of 300 KB,
  the bounds 0.1 and 0.95, 10 iterations at most and the tolerance of 5 KB, the search
  stops after 7 encodes and returns the blob of quality \<open>383 / 1280\<close> (about 0.2992),
  whose size of 306400 bytes is 299.2 KB, within 295 and 305 KB.
\<close>

theorem synthetic_scenario:
  "binarySearch synthetic (resolve (target_only 300)) cv
       (initial_state (resolve (target_only 300)))
     = (map (ToBlob cv ''image/jpeg'')
          [19 / 20, 21 / 40, 5 / 16, 33 / 160, 83 / 320, 183 / 640, 383 / 1280],
        Inr \<lparr>blob_size = 306400, content = 383 / 1280\<rparr>)
   \<and> length (fst (binarySearch synthetic (resolve (target_only 300)) cv
                    (initial_state (resolve (target_only 300))))) \<le> 10
   \<and> 295 \<le> sizeKB \<lparr>blob_size = 306400, content = 383 / 1280 :: rat\<rparr>
   \<and> sizeKB \<lparr>blob_size = 306400, content = 383 / 1280 :: rat\<rparr> \<le> 305
   \<and> \<bar>383 / 1280 - 3 / 10 :: rat\<bar> < 1 / 1000"
  by (simp add: model_defs)

lemma search_all_over:
  assumes "bestBlob st = None" and "low st \<le> currentQuality st"
    and "\<forall>q \<in> set (tried (fst (binarySearch toBlob cfg cv st))).
           \<exists>blob. toBlob cv (mimeType' cfg) q = Some blob \<and> targetSizeKB' cfg < sizeKB blob"
  shows "\<exists>q blob. q \<in> set (tried (fst (binarySearch toBlob cfg cv st)))
           \<and> q = last (tried (fst (binarySearch toBlob cfg cv st)))
           \<and> (\<forall>q' \<in> set (tried (fst (binarySearch toBlob cfg cv st))).
                  q \<le> q' \<and> q' \<le> currentQuality st)
           \<and> low st \<le> q
           \<and> toBlob cv (mimeType' cfg) q = Some blob
           \<and> snd (binarySearch toBlob cfg cv st) = Inr blob"
  using assms
proof (induction toBlob cfg cv st rule: binarySearch.induct)
  case (1 toBlob cfg cv st)
  let ?t = "targetSizeKB' cfg" and ?m = "mimeType' cfg" and ?q = "currentQuality st"
  have "?q \<in> set (tried (fst (binarySearch toBlob cfg cv st)))"
    by (subst binarySearch.simps) simp
  with "1.prems"(3) obtain blob where blob: "toBlob cv ?m ?q = Some blob"
    and over: "\<not> sizeKB blob \<le> ?t"
    by (fastforce simp: not_le)
  let ?st' = "bs_update ?t blob st"
  show ?case
  proof (cases "bs_stop ?t (maxIterations' cfg) blob ?st'")
    case True
    have "binarySearch toBlob cfg cv st = ([ToBlob cv ?m ?q], Inr blob)"
      using search_stops [of toBlob cv cfg st blob, OF blob True] result_over [OF over, of st]
        "1.prems"(1) by simp
    then show ?thesis
      using blob "1.prems"(2) by simp
  next
    case False
    let ?nx = "bs_next ?st'"
    have nx: "?nx = \<lparr>low = low st, high = ?q, currentQuality = (low st + ?q) / 2,
                     iteration = Suc (iteration st), bestBlob = bestBlob st\<rparr>"
      using over by (rule next_over)
    have run: "binarySearch toBlob cfg cv st
                 = log_event (ToBlob cv ?m ?q) (binarySearch toBlob cfg cv ?nx)"
      using blob False by (rule search_continues)
    have tr: "tried (fst (binarySearch toBlob cfg cv st))
                = ?q # tried (fst (binarySearch toBlob cfg cv ?nx))"
      by (simp add: run)
    have p1: "bestBlob ?nx = None"
      using "1.prems"(1) by (simp add: nx)
    have p2: "low ?nx \<le> currentQuality ?nx"
      using "1.prems"(2) by (simp add: nx)
    have p3: "\<forall>q \<in> set (tried (fst (binarySearch toBlob cfg cv ?nx))).
           \<exists>blob. toBlob cv ?m q = Some blob \<and> ?t < sizeKB blob"
      using "1.prems"(3) by (simp add: tr)
    from "1.IH" [OF blob False p1 p2 p3] obtain q b
      where q: "q \<in> set (tried (fst (binarySearch toBlob cfg cv ?nx)))"
        and least: "\<forall>q' \<in> set (tried (fst (binarySearch toBlob cfg cv ?nx))).
                      q \<le> q' \<and> q' \<le> currentQuality ?nx"
        and lastq: "q = last (tried (fst (binarySearch toBlob cfg cv ?nx)))"
        and above: "low ?nx \<le> q"
        and enc: "toBlob cv ?m q = Some b"
        and res: "snd (binarySearch toBlob cfg cv ?nx) = Inr b"
      by blast
    have mid: "currentQuality ?nx \<le> ?q"
      using "1.prems"(2) by (simp add: nx)
    have "q \<in> set (tried (fst (binarySearch toBlob cfg cv st)))"
      using q by (simp add: tr)
    moreover have "\<forall>q' \<in> set (tried (fst (binarySearch toBlob cfg cv st))).
                      q \<le> q' \<and> q' \<le> ?q"
      using least q mid by (fastforce simp: tr)
    moreover have "q = last (tried (fst (binarySearch toBlob cfg cv st)))"
      using lastq q by (auto simp: tr)
    moreover have "low st \<le> q"
      using above by (simp add: nx)
    moreover have "snd (binarySearch toBlob cfg cv st) = Inr b"
      using res by (simp add: run)
    ultimately show ?thesis
      using enc by blast
  qed
qed

text \<open>
  C6 (as amended).  In a quality search started from bounds with
  \<open>minQuality \<le> maxQuality\<close> (the bounds after the defaults of lines 130--131) in which
  every encoded blob exceeds the target, so that \<open>bestBlob\<close> is never set, the blob
  returned is the last one encoded; its quality is the smallest of the qualities
  tried and is at least \<open>minQuality\<close>.
\<close>

theorem all_over_returns_lowest_tried:
  fixes toBlob :: "'c encoder"
  assumes "minQualitySetting cfg \<le> maxQualitySetting cfg"
    and "binarySearch toBlob cfg cv (initial_state cfg) = (es, r)"
    and "\<forall>q \<in> set (tried es).
           \<exists>blob. toBlob cv (mimeType' cfg) q = Some blob \<and> targetSizeKB' cfg < sizeKB blob"
  shows "\<exists>q blob. q = last (tried es) \<and> q \<in> set (tried es)
           \<and> (\<forall>q' \<in> set (tried es). q \<le> q')
           \<and> toBlob cv (mimeType' cfg) q = Some blob \<and> r = Inr blob
           \<and> minQualitySetting cfg \<le> q"
proof -
  let ?st = "initial_state cfg :: 'c search_state"
  have "bestBlob ?st = None" and "low ?st \<le> currentQuality ?st"
    using assms(1) by (simp_all add: initial_state_def)
  moreover have "\<forall>q \<in> set (tried (fst (binarySearch toBlob cfg cv ?st))).
           \<exists>blob. toBlob cv (mimeType' cfg) q = Some blob \<and> targetSizeKB' cfg < sizeKB blob"
    using assms(2,3) by simp
  ultimately obtain q blob
    where "q \<in> set (tried (fst (binarySearch toBlob cfg cv ?st)))"
      and "q = last (tried (fst (binarySearch toBlob cfg cv ?st)))"
      and "\<forall>q' \<in> set (tried (fst (binarySearch toBlob cfg cv ?st))).
                  q \<le> q' \<and> q' \<le> currentQuality ?st"
      and "low ?st \<le> q"
      and "toBlob cv (mimeType' cfg) q = Some blob"
      and "snd (binarySearch toBlob cfg cv ?st) = Inr blob"
    using search_all_over [of ?st toBlob cfg cv] by blast
  then show ?thesis
    using assms(2) by (auto simp: initial_state_def)
qed

theorem all_over_returns_lowest_tried_witness:
  "minQualitySetting (resolve ((target_only 1)\<lparr>maxIterations := Some 3\<rparr>))
     \<le> maxQualitySetting (resolve ((target_only 1)\<lparr>maxIterations := Some 3\<rparr>))
   \<and> binarySearch synthetic (resolve ((target_only 1)\<lparr>maxIterations := Some 3\<rparr>))
         sample_canvas (initial_state (resolve ((target_only 1)\<lparr>maxIterations := Some 3\<rparr>)))
       = (map (ToBlob sample_canvas ''image/jpeg'') [19 / 20, 21 / 40, 5 / 16],
          Inr \<lparr>blob_size = 320000, content = 5 / 16\<rparr>)
   \<and> synthetic sample_canvas ''image/jpeg'' (5 / 16)
       = Some \<lparr>blob_size = 320000, content = 5 / 16\<rparr>
   \<and> (1 / 10 :: rat) \<le> 5 / 16"
  using all_over_returns_lowest_tried
    [of "resolve ((target_only 1)\<lparr>maxIterations := Some 3\<rparr>)" synthetic sample_canvas
      "map (ToBlob sample_canvas ''image/jpeg'') [19 / 20, 21 / 40, 5 / 16]"
      "Inr \<lparr>blob_size = 320000, content = 5 / 16\<rparr>"]
  by (simp add: model_defs)

text \<open>
  C6 as stated fails on both counts.  The request \<open>minQuality = 0\<close>,
  \<open>maxQuality = 0.05\<close> starts its search from \<open>low = 0.1\<close> and \<open>high = 0.05\<close>: with a target
  of 1 KB and three iterations the qualities tried rise, 0.05, 0.075 and 0.0875, every
  blob exceeds the target, and the blob returned is that of the largest quality tried.
  The request \<open>maxQuality = 0.1\<close> starts from \<open>low = high = 0.1\<close>: every encode is at 0.1,
  and the quality of the blob returned is \<open>minQuality\<close> itself.
\<close>

theorem rising_or_constant_qualities:
  "binarySearch synthetic
       (resolve ((target_only 1)\<lparr>minQuality := Some 0, maxQuality := Some (1 / 20),
                   maxIterations := Some 3\<rparr>))
       sample_canvas
       (initial_state
          (resolve ((target_only 1)\<lparr>minQuality := Some 0, maxQuality := Some (1 / 20),
                      maxIterations := Some 3\<rparr>)))
     = (map (ToBlob sample_canvas ''image/jpeg'') [1 / 20, 3 / 40, 7 / 80],
        Inr \<lparr>blob_size = 89600, content = 7 / 80\<rparr>)
   \<and> synthetic sample_canvas ''image/jpeg'' (1 / 20)
     = Some \<lparr>blob_size = 51200, content = 1 / 20\<rparr>
   \<and> (1 :: rat) < sizeKB \<lparr>blob_size = 51200, content = 1 / 20 :: rat\<rparr>
   \<and> (1 / 20 :: rat) < 7 / 80
   \<and> binarySearch synthetic
       (resolve ((target_only 1)\<lparr>maxQuality := Some (1 / 10), maxIterations := Some 2\<rparr>))
       sample_canvas
       (initial_state
          (resolve ((target_only 1)\<lparr>maxQuality := Some (1 / 10),
                      maxIterations := Some 2\<rparr>)))
     = (map (ToBlob sample_canvas ''image/jpeg'') [1 / 10, 1 / 10],
        Inr \<lparr>blob_size = 102400, content = 1 / 10\<rparr>)
   \<and> minQualitySetting
       (resolve ((target_only 1)\<lparr>maxQuality := Some (1 / 10), maxIterations := Some 2\<rparr>))
     = 1 / 10"
  by (simp add: model_defs)

section \<open>The downscale retry loop\<close>

lemma binarySearch_events:
  "fst (binarySearch toBlob cfg cv st)
     = map (ToBlob cv (mimeType' cfg)) (tried (fst (binarySearch toBlob cfg cv st)))"
proof -
  have "binarySearch toBlob cfg cv st
          = (map (ToBlob cv (mimeType' cfg)) (tried (fst (binarySearch toBlob cfg cv st))),
             snd (binarySearch toBlob cfg cv st))"
    using spec_meets_binarySearch [of toBlob cv cfg st
        "(tried (fst (binarySearch toBlob cfg cv st)), snd (binarySearch toBlob cfg cv st))"]
      binarySearch_meets_spec [of toBlob cv cfg st]
    by simp
  then show ?thesis
    by (rule arg_cong [where f = fst, THEN trans]) simp
qed

lemma draw_ratios_search [simp]:
  "draw_ratios (fst (binarySearch toBlob cfg cv st)) = []"
proof -
  have "draw_ratios (map (ToBlob cv m) qs) = []" for m qs
    by (induction qs) simp_all
  then show ?thesis
    by (subst binarySearch_events) simp
qed

lemma draw_ratios_append [simp]:
  "draw_ratios (xs @ ys) = draw_ratios xs @ draw_ratios ys"
  by (induction xs rule: draw_ratios.induct) simp_all

lemma attempt_final:
  assumes "drawImageToCanvas img (maxWidth' cfg) (maxHeight' cfg) r = Some cv"
    and "\<forall>b. snd (binarySearch toBlob cfg cv (initial_state cfg)) = Inr b
            \<longrightarrow> \<not> retry cfg r b"
  shows "attemptCompression toBlob cfg img r
           = log_event (DrawImage r) (binarySearch toBlob cfg cv (initial_state cfg))"
  using assms
  by (subst attemptCompression.simps) (simp split: sum.splits)

lemma attempt_retry:
  assumes "drawImageToCanvas img (maxWidth' cfg) (maxHeight' cfg) r = Some cv"
    and "snd (binarySearch toBlob cfg cv (initial_state cfg)) = Inr b"
    and "retry cfg r b"
  shows "attemptCompression toBlob cfg img r
           = log_event (DrawImage r)
               (append_events (fst (binarySearch toBlob cfg cv (initial_state cfg)))
                  (attemptCompression toBlob cfg img (r * scaleStep)))"
  using assms
  by (subst attemptCompression.simps) simp

lemma attempt_no_canvas:
  assumes "drawImageToCanvas img (maxWidth' cfg) (maxHeight' cfg) r = None"
  shows "attemptCompression toBlob cfg img r = ([DrawImage r], Inl NonFinite)"
  using assms
  by (subst attemptCompression.simps) (simp add: log_event_def)

lemma geometric_Cons:
  "r # map (\<lambda>k. r * s * s ^ k) [0..<n] = map (\<lambda>k. (r :: rat) * s ^ k) [0..<Suc n]"
  by (induction n) (simp_all add: mult.assoc)

text \<open>The ratios of the attempts started at ratio \<open>r\<close>: a geometric sequence.\<close>

lemma attempt_ratios:
  "\<exists>n. draw_ratios (fst (attemptCompression toBlob cfg img r))
          = map (\<lambda>k. r * scaleStep ^ k) [0..<Suc n]
        \<and> (\<forall>k<n. 1 / 4 < r * scaleStep ^ k)"
proof (induction toBlob cfg img r rule: attemptCompression.induct)
  case (1 toBlob cfg img r)
  let ?S = "\<lambda>cv. binarySearch toBlob cfg cv (initial_state cfg)"
  have single: ?case if "draw_ratios (fst (attemptCompression toBlob cfg img r)) = [r]"
  proof -
    have "draw_ratios (fst (attemptCompression toBlob cfg img r))
            = map (\<lambda>k. r * scaleStep ^ k) [0..<Suc 0]
          \<and> (\<forall>k<0. 1 / 4 < r * scaleStep ^ k)"
      using that by simp
    then show ?thesis
      by blast
  qed
  show ?case
  proof (cases "drawImageToCanvas img (maxWidth' cfg) (maxHeight' cfg) r")
    case None
    then show ?thesis
      by (intro single) (simp add: attempt_no_canvas)
  next
    case (Some cv)
    show ?thesis
    proof (cases "\<exists>b. snd (?S cv) = Inr b \<and> retry cfg r b")
      case False
      then have "attemptCompression toBlob cfg img r = log_event (DrawImage r) (?S cv)"
        using attempt_final [OF Some] by blast
      then show ?thesis
        by (intro single) (simp add: log_event_def)
    next
      case True
      then obtain b where b: "snd (?S cv) = Inr b" and re: "retry cfg r b"
        by blast
      from "1.IH" [OF Some b re] obtain n
        where n: "draw_ratios (fst (attemptCompression toBlob cfg img (r * scaleStep)))
                    = map (\<lambda>k. r * scaleStep * scaleStep ^ k) [0..<Suc n]"
          and above: "\<forall>k<n. 1 / 4 < r * scaleStep * scaleStep ^ k"
        by blast
      have "draw_ratios (fst (attemptCompression toBlob cfg img r))
              = r # map (\<lambda>k. r * scaleStep * scaleStep ^ k) [0..<Suc n]"
        using attempt_retry [OF Some b re] n by (simp add: log_event_def append_events_def)
      also have "\<dots> = map (\<lambda>k. r * scaleStep ^ k) [0..<Suc (Suc n)]"
        by (rule geometric_Cons)
      finally have eq: "draw_ratios (fst (attemptCompression toBlob cfg img r))
              = map (\<lambda>k. r * scaleStep ^ k) [0..<Suc (Suc n)]" .
      have "1 / 4 < r * scaleStep ^ k" if "k < Suc n" for k
      proof (cases k)
        case 0
        then show ?thesis
          using re by (simp add: retry_def)
      next
        case (Suc j)
        then show ?thesis
          using above that by (simp add: mult.assoc)
      qed
      with eq show ?thesis
        by blast
    qed
  qed
qed

lemma pow14: "(9 / 10 :: rat) ^ 14 < 1 / 4"
  by (simp add: power_divide)

lemma claimed_bound: "\<lceil>ln (1 / 4) / ln (9 / 10 :: real)\<rceil> = 14"
proof -
  have neg: "ln (9 / 10 :: real) < 0"
    by simp
  have "ln ((9 / 10 :: real) ^ 14) \<le> ln (1 / 4)"
    by (subst ln_le_cancel_iff) (simp_all add: power_divide)
  then have a: "14 * ln (9 / 10 :: real) \<le> ln (1 / 4)"
    by (simp add: ln_realpow)
  have "ln (1 / 4) < ln ((9 / 10 :: real) ^ 13)"
    by (subst ln_less_cancel_iff) (simp_all add: power_divide)
  then have b: "ln (1 / 4) < 13 * ln (9 / 10 :: real)"
    by (simp add: ln_realpow)
  have "ln (1 / 4) / ln (9 / 10 :: real) \<le> 14"
    using a neg by (simp add: neg_divide_le_eq)
  moreover have "13 < ln (1 / 4) / ln (9 / 10 :: real)"
    using b neg by (simp add: neg_less_divide_eq)
  ultimately show ?thesis
    by (intro ceiling_unique) simp_all
qed

lemma geometric_facts:
  assumes rs: "rs = map (\<lambda>k. scaleStep ^ k) [0..<Suc n]"
    and above: "\<forall>k<n. 1 / 4 < scaleStep ^ k"
  shows "sorted_wrt (\<lambda>a b. b < a) rs \<and> (\<forall>x \<in> set rs. 9 / 40 < x)
         \<and> (\<forall>x \<in> set (butlast rs). 1 / 4 < x) \<and> length rs \<le> 15"
proof (intro conjI)
  have "scaleStep ^ b < scaleStep ^ a" if "a < b" for a b :: nat
    using that by (intro power_strict_decreasing) (simp_all add: scaleStep_def)
  then have "sorted_wrt (\<lambda>a b. scaleStep ^ b < scaleStep ^ a) [0..<Suc n]"
    by (simp add: sorted_wrt_iff_nth_less del: upt_Suc)
  then show "sorted_wrt (\<lambda>a b. b < a) rs"
    unfolding rs by (simp only: sorted_wrt_map)
next
  have "9 / 40 < scaleStep ^ k" if "k \<le> n" for k
  proof (cases k)
    case 0
    then show ?thesis by simp
  next
    case (Suc j)
    then have "1 / 4 < scaleStep ^ j"
      using above that by simp
    then show ?thesis
      unfolding Suc by (simp add: scaleStep_def)
  qed
  then show "\<forall>x \<in> set rs. 9 / 40 < x"
    unfolding rs by auto
next
  have "butlast rs = map (\<lambda>k. scaleStep ^ k) [0..<n]"
    unfolding rs by (simp add: butlast_append)
  then show "\<forall>x \<in> set (butlast rs). 1 / 4 < x"
    using above by auto
next
  have "n \<le> 14"
  proof (rule ccontr)
    assume "\<not> n \<le> 14"
    then have "14 < n"
      by simp
    then have "1 / 4 < scaleStep ^ 14"
      using above by blast
    then show False
      using pow14 by (simp only: scaleStep_def)
  qed
  then show "length rs \<le> 15"
    unfolding rs by (simp del: upt_Suc)
qed

text \<open>
  C3 (as amended).  Across the downscale retry loop of one request, the downscale
  ratios used for rendering are strictly decreasing (hence non-increasing); every ratio
  but the last is above 0.25, and the last is above \<open>0.25 * 0.9 = 0.225\<close>; there are at
  most 15 attempts, one more than \<open>\<lceil>log 0.25 / log 0.9\<rceil> = 14\<close>.  The loop and the search
  inside each attempt are total functions, so the call terminates.
\<close>

theorem downscale_ratios_bounded:
  "sorted_wrt (\<lambda>a b. b < a)
     (draw_ratios (fst (compressImageToTarget ld toBlob file opts)))
   \<and> (\<forall>x \<in> set (draw_ratios (fst (compressImageToTarget ld toBlob file opts))).
         9 / 40 < x)
   \<and> (\<forall>x \<in> set (butlast (draw_ratios (fst (compressImageToTarget ld toBlob file opts)))).
         1 / 4 < x)
   \<and> length (draw_ratios (fst (compressImageToTarget ld toBlob file opts))) \<le> 15"
proof (cases "truthy (targetSizeKB opts) \<and> ld file \<noteq> None")
  case False
  then have "draw_ratios (fst (compressImageToTarget ld toBlob file opts)) = []"
    by (auto simp: compressImageToTarget_def log_event_def)
  then show ?thesis
    by simp
next
  case True
  then obtain img where "ld file = Some img"
    by blast
  with True have "draw_ratios (fst (compressImageToTarget ld toBlob file opts))
      = draw_ratios (fst (attemptCompression toBlob (resolve opts) img 1))"
    by (simp add: compressImageToTarget_def log_event_def)
  moreover obtain n
    where "draw_ratios (fst (attemptCompression toBlob (resolve opts) img 1))
             = map (\<lambda>k. 1 * scaleStep ^ k) [0..<Suc n]"
      and "\<forall>k<n. 1 / 4 < 1 * scaleStep ^ k"
    using attempt_ratios [of toBlob "resolve opts" img 1] by blast
  ultimately show ?thesis
    using geometric_facts [of _ n] by simp
qed

theorem downscale_ratios_bounded_witness:
  "draw_ratios (fst (compressImageToTarget Some area_encoder sample_image
       ((target_only 300)\<lparr>maxIterations := Some 1\<rparr>))) = [1, 9 / 10, 81 / 100]
   \<and> sorted_wrt (\<lambda>a b. b < a) [1, 9 / 10, 81 / 100 :: rat]
   \<and> list_all (\<lambda>x. 9 / 40 < x) [1, 9 / 10, 81 / 100 :: rat]
   \<and> list_all (\<lambda>x. 1 / 4 < x) (butlast [1, 9 / 10, 81 / 100 :: rat])
   \<and> length [1, 9 / 10, 81 / 100 :: rat] \<le> 15"
  using downscale_ratios_bounded [of Some area_encoder sample_image
      "(target_only 300)\<lparr>maxIterations := Some 1\<rparr>"]
  by (simp add: model_defs)

text \<open>
  C3 as stated fails on both bounds.  With a target of 1 KB and the synthetic encoder,
  whose blobs never come near the target, the loop renders 15 times, more than
  \<open>\<lceil>log 0.25 / log 0.9\<rceil> = 14\<close>, and the last render uses the ratio \<open>0.9 ^ 14\<close>, about
  0.2288, below the floor of 0.25: line 182 tests the ratio before line 183 multiplies
  it.
\<close>

theorem floor_undershot_and_fifteen_attempts:
  "length (draw_ratios (fst (compressImageToTarget Some synthetic sample_image
       ((target_only 1)\<lparr>maxIterations := Some 1\<rparr>)))) = 15
   \<and> last (draw_ratios (fst (compressImageToTarget Some synthetic sample_image
       ((target_only 1)\<lparr>maxIterations := Some 1\<rparr>))))
       = 22876792454961 / 100000000000000
   \<and> (22876792454961 / 100000000000000 :: rat) < 1 / 4
   \<and> \<lceil>ln (1 / 4) / ln (9 / 10 :: real)\<rceil> = 14"
  using claimed_bound by (simp add: model_defs)

lemma search_monotone_over:
  assumes "bestBlob st = None" and "low st \<le> currentQuality st"
    and total: "\<And>q. \<exists>b. toBlob cv (mimeType' cfg) q = Some b"
    and mono: "\<And>q q' b b'. q \<le> q' \<Longrightarrow> toBlob cv (mimeType' cfg) q = Some b
                 \<Longrightarrow> toBlob cv (mimeType' cfg) q' = Some b' \<Longrightarrow> blob_size b \<le> blob_size b'"
    and "toBlob cv (mimeType' cfg) (low st) = Some bmin"
    and "targetSizeKB' cfg < sizeKB bmin"
  shows "\<forall>q \<in> set (tried (fst (binarySearch toBlob cfg cv st))).
           \<exists>blob. toBlob cv (mimeType' cfg) q = Some blob \<and> targetSizeKB' cfg < sizeKB blob"
  using assms
proof (induction toBlob cfg cv st rule: binarySearch.induct)
  case (1 toBlob cfg cv st)
  let ?t = "targetSizeKB' cfg" and ?m = "mimeType' cfg" and ?q = "currentQuality st"
  note total = "1.prems"(3) and mono = "1.prems"(4) and small = "1.prems"(6)
  obtain blob where blob: "toBlob cv ?m ?q = Some blob"
    using total by blast
  have "blob_size bmin \<le> blob_size blob"
    using mono [of "low st" ?q bmin blob] "1.prems"(2,5) blob by simp
  then have "sizeKB bmin \<le> sizeKB blob"
    by (simp add: sizeKB_def divide_right_mono)
  then have big: "?t < sizeKB blob"
    using small by simp
  then have over: "\<not> sizeKB blob \<le> ?t"
    by simp
  let ?st' = "bs_update ?t blob st"
  show ?case
  proof (cases "bs_stop ?t (maxIterations' cfg) blob ?st'")
    case True
    then show ?thesis
      using search_stops [of toBlob cv cfg st blob, OF blob True] blob big by simp
  next
    case False
    let ?nx = "bs_next ?st'"
    have nx: "?nx = \<lparr>low = low st, high = ?q, currentQuality = (low st + ?q) / 2,
                     iteration = Suc (iteration st), bestBlob = bestBlob st\<rparr>"
      using over by (rule next_over)
    have tr: "tried (fst (binarySearch toBlob cfg cv st))
                = ?q # tried (fst (binarySearch toBlob cfg cv ?nx))"
      using search_continues [of toBlob cv cfg st blob, OF blob False] by simp
    have "\<forall>q \<in> set (tried (fst (binarySearch toBlob cfg cv ?nx))).
           \<exists>blob. toBlob cv ?m q = Some blob \<and> ?t < sizeKB blob"
    proof (rule "1.IH" [OF blob False _ _ total mono _ small])
      show "bestBlob ?nx = None"
        using "1.prems"(1) by (simp add: nx)
      show "low ?nx \<le> currentQuality ?nx"
        using "1.prems"(2) by (simp add: nx)
      show "toBlob cv ?m (low ?nx) = Some bmin"
        using "1.prems"(5) by (simp add: nx)
    qed
    then show ?thesis
      using blob big by (simp add: tr)
  qed
qed


lemma synthetic_total: "\<exists>b. synthetic cv m q = Some b"
  by (simp add: synthetic_def)

lemma synthetic_mono:
  assumes "q \<le> q'" and "synthetic cv m q = Some b" and "synthetic cv m q' = Some b'"
  shows "blob_size b \<le> blob_size b'"
proof -
  have "\<lfloor>1024000 * q\<rfloor> \<le> \<lfloor>1024000 * q'\<rfloor>"
    using assms(1) by (intro floor_mono) simp
  then show ?thesis
    using assms(2,3) by (auto simp: synthetic_def)
qed

text \<open>
  C5 (as amended).  For a request with \<open>allowScaleDown = false\<close> that reaches the
  encoder, with bounds \<open>minQuality \<le> maxQuality\<close> after the defaults of lines 130--131,
  against an encoder whose size does not decrease with the quality and at \<open>minQuality\<close>
  still exceeds the target plus the tolerance, there is no downscale retry: the only
  render is the one at \<open>downscaleRatio = 1\<close>.  The blob returned is the last one the
  search encoded, at the lowest quality it tried, a quality that is at least
  \<open>minQuality\<close>.
\<close>

theorem no_scale_down_single_attempt:
  fixes toBlob :: "'c encoder"
  assumes "allowScaleDown opts = Some False"
    and "truthy (targetSizeKB opts)"
    and "ld f = Some img"
    and "drawImageToCanvas img (maxWidth' (resolve opts)) (maxHeight' (resolve opts)) 1
           = Some cv"
    and "minQualitySetting (resolve opts) \<le> maxQualitySetting (resolve opts)"
    and "\<forall>q. \<exists>b. toBlob cv (mimeType' (resolve opts)) q = Some b"
    and "\<forall>q q' b b'. q \<le> q' \<and> toBlob cv (mimeType' (resolve opts)) q = Some b
           \<and> toBlob cv (mimeType' (resolve opts)) q' = Some b'
           \<longrightarrow> blob_size b \<le> blob_size b'"
    and "toBlob cv (mimeType' (resolve opts)) (minQualitySetting (resolve opts)) = Some bmin"
    and "targetSizeKB' (resolve opts) + 5 < sizeKB bmin"
  shows "draw_ratios (fst (compressImageToTarget ld toBlob f opts)) = [1]
       \<and> (\<exists>q blob. q = last (tried (fst (compressImageToTarget ld toBlob f opts)))
            \<and> q \<in> set (tried (fst (compressImageToTarget ld toBlob f opts)))
            \<and> (\<forall>q' \<in> set (tried (fst (compressImageToTarget ld toBlob f opts))).
                   q \<le> q')
            \<and> minQualitySetting (resolve opts) \<le> q
            \<and> toBlob cv (mimeType' (resolve opts)) q = Some blob
            \<and> snd (compressImageToTarget ld toBlob f opts) = Inr blob)"
proof -
  let ?cfg = "resolve opts"
  let ?st = "initial_state ?cfg :: 'c search_state"
  let ?S = "binarySearch toBlob ?cfg cv ?st"
  have "\<not> retry ?cfg 1 b" for b :: "'c blob"
    using assms(1) by (simp add: retry_def resolve_def)
  then have "attemptCompression toBlob ?cfg img 1 = log_event (DrawImage 1) ?S"
    using attempt_final [OF assms(4)] by blast
  then have out: "compressImageToTarget ld toBlob f opts
                    = (LoadImage # DrawImage 1 # fst ?S, snd ?S)"
    using assms(2,3) by (simp add: compressImageToTarget_def log_event_def)
  have st: "bestBlob ?st = None" "low ?st \<le> currentQuality ?st"
    "low ?st = minQualitySetting ?cfg"
    using assms(5) by (simp_all add: initial_state_def)
  have small: "targetSizeKB' ?cfg < sizeKB bmin"
    using assms(9) by simp
  have "\<forall>q \<in> set (tried (fst ?S)).
           \<exists>blob. toBlob cv (mimeType' ?cfg) q = Some blob \<and> targetSizeKB' ?cfg < sizeKB blob"
  proof (rule search_monotone_over [of ?st toBlob cv ?cfg bmin, OF st(1,2) _ _ _ small])
    show "\<exists>b. toBlob cv (mimeType' ?cfg) q = Some b" for q
      using assms(6) by blast
    show "blob_size b \<le> blob_size b'"
      if "q \<le> q'" "toBlob cv (mimeType' ?cfg) q = Some b"
        "toBlob cv (mimeType' ?cfg) q' = Some b'" for q q' b b'
      using assms(7) that by blast
    show "toBlob cv (mimeType' ?cfg) (low ?st) = Some bmin"
      using assms(8) st(3) by simp
  qed
  from search_all_over [OF st(1,2) this] show ?thesis
    by (simp add: out st(3))
qed

theorem no_scale_down_single_attempt_witness:
  "draw_ratios (fst (compressImageToTarget Some synthetic sample_image
       ((target_only 1)\<lparr>allowScaleDown := Some False\<rparr>))) = [1]
   \<and> targetSizeKB' (resolve ((target_only 1)\<lparr>allowScaleDown := Some False\<rparr>)) + 5
       < sizeKB \<lparr>blob_size = 102400, content = 1 / 10 :: rat\<rparr>"
proof -
  let ?opts = "(target_only 1)\<lparr>allowScaleDown := Some False\<rparr>"
  have h1: "allowScaleDown ?opts = Some False"
    by simp
  have h2: "truthy (targetSizeKB ?opts)"
    by (simp add: truthy_def target_only_def)
  have h3: "Some sample_image = Some sample_image"
    by simp
  have h4: "drawImageToCanvas sample_image (maxWidth' (resolve ?opts))
              (maxHeight' (resolve ?opts)) 1 = Some sample_canvas"
    by (simp add: model_defs)
  have h5: "minQualitySetting (resolve ?opts) \<le> maxQualitySetting (resolve ?opts)"
    by (simp add: model_defs)
  have h6: "\<forall>q. \<exists>b. synthetic sample_canvas (mimeType' (resolve ?opts)) q = Some b"
    by (simp add: synthetic_total)
  have h7: "\<forall>q q' b b'. q \<le> q'
              \<and> synthetic sample_canvas (mimeType' (resolve ?opts)) q = Some b
              \<and> synthetic sample_canvas (mimeType' (resolve ?opts)) q' = Some b'
              \<longrightarrow> blob_size b \<le> blob_size b'"
    using synthetic_mono by blast
  have h8: "synthetic sample_canvas (mimeType' (resolve ?opts))
              (minQualitySetting (resolve ?opts))
              = Some \<lparr>blob_size = 102400, content = 1 / 10\<rparr>"
    by (simp add: model_defs)
  have h9: "targetSizeKB' (resolve ?opts) + 5
              < sizeKB \<lparr>blob_size = 102400, content = 1 / 10 :: rat\<rparr>"
    by (simp add: model_defs)
  from no_scale_down_single_attempt [where toBlob = synthetic and opts = ?opts
      and ld = Some and f = sample_image and img = sample_image and cv = sample_canvas,
      OF h1 h2 h3 h4 h5 h6 h7 h8 h9] h9
  show ?thesis
    by blast
qed

text \<open>
  C5 as stated fails on the blob returned.  With a target of 1 KB, the default bounds
  and \<open>allowScaleDown = false\<close>, the synthetic encoder gives 100 KB at \<open>minQuality = 0.1\<close>;
  the search encodes at ten qualities from 0.95 down to \<open>1041 / 10240\<close> (about 0.1017)
  and returns that last blob of 104100 bytes, not the blob of 102400 bytes that
  \<open>minQuality\<close> gives: this search does not encode at \<open>minQuality\<close>.
\<close>

theorem minimum_quality_blob_not_returned:
  "compressImageToTarget Some synthetic sample_image
       ((target_only 1)\<lparr>allowScaleDown := Some False\<rparr>)
     = ([LoadImage, DrawImage 1] @ map (ToBlob sample_canvas ''image/jpeg'')
          [19 / 20, 21 / 40, 5 / 16, 33 / 160, 49 / 320, 81 / 640, 29 / 256, 273 / 2560,
           529 / 5120, 1041 / 10240],
        Inr \<lparr>blob_size = 104100, content = 1041 / 10240\<rparr>)
   \<and> synthetic sample_canvas ''image/jpeg'' (1 / 10)
     = Some \<lparr>blob_size = 102400, content = 1 / 10\<rparr>
   \<and> (1 + 5 :: rat) < sizeKB \<lparr>blob_size = 102400, content = 1 / 10 :: rat\<rparr>"
  by (simp add: model_defs)

end
